theory Spec2Isabelle
  imports Main "HOL-Library.Word"
begin

section \<open>The CertificateVerify step of s2n-tls (tls/s2n_client_cert_verify.c)\<close>

text \<open>
  The file under verification holds three functions: \<open>s2n_client_cert_verify_recv\<close>,
  \<open>s2n_client_cert_verify_send\<close> and the completion \<open>s2n_client_cert_verify_send_complete\<close>.
  They are embedded as functions from a connection to a result and the connection as the
  call leaves it. A failing call also returns the connection, since the C code mutates it
  in place and an early return keeps what was written before.
  Everything these functions call (the stuffer, the hash service, the scheme registry, the
  key primitives, the async macros) lives in files that are not part of the sources at hand.
  Those parts are modelled from the specification, each marked as such.
\<close>

subsection \<open>Data\<close>

type_synonym byte = "8 word"

text \<open>
  The error a failing call reports. The first six names are the specification's taxonomy
  (section 7). \<open>NullError\<close> is what \<open>POSIX_ENSURE_REF\<close> raises on a null pointer,
  \<open>BufferFullError\<close> what a guarded buffer write raises when the bytes do not fit, and
  \<open>MinimizationError\<close> what the guarded hash-algorithm minimization raises when it fails.
\<close>

datatype s2n_error =
    NegotiationError
  | MalformedMessageError
  | TranscriptStateError
  | VerificationFailure
  | AsyncOperationError
  | AsyncPending
  | NullError
  | BufferFullError
  | MinimizationError

text \<open>
  The enumerations of the absent headers, as far as the code passes them around: the hash
  algorithms, the signature algorithms and the key types. Nothing but equality on them is
  used.
\<close>

datatype s2n_hash_algorithm =
    S2N_HASH_NONE | S2N_HASH_MD5 | S2N_HASH_SHA1 | S2N_HASH_SHA224
  | S2N_HASH_SHA256 | S2N_HASH_SHA384 | S2N_HASH_SHA512 | S2N_HASH_MD5_SHA1

datatype s2n_signature_algorithm =
    S2N_SIGNATURE_ANONYMOUS | S2N_SIGNATURE_RSA | S2N_SIGNATURE_ECDSA
  | S2N_SIGNATURE_RSA_PSS_RSAE | S2N_SIGNATURE_RSA_PSS_PSS

datatype s2n_pkey_type = S2N_PKEY_TYPE_RSA | S2N_PKEY_TYPE_ECDSA | S2N_PKEY_TYPE_RSA_PSS

text \<open>The fields of \<open>struct s2n_signature_scheme\<close> that the code reads.\<close>

record s2n_signature_scheme =
  iana_value :: "16 word"
  hash_alg :: s2n_hash_algorithm
  sig_alg :: s2n_signature_algorithm

text \<open>
  A hash state is the content of a \<open>struct s2n_hash_state\<close>, kept as opaque bytes: the
  code copies it and hands it to the primitives, and never looks inside. A key is its key
  material.
\<close>

type_synonym s2n_hash_state = "byte list"
type_synonym s2n_pkey = "byte list"

text \<open>
  Modelled from the spec: the buffer/cursor abstraction (\<open>struct s2n_stuffer\<close>), whose
  source is absent. \<open>blob\<close> holds the bytes written so far (the write cursor is its
  length), \<open>read_cursor\<close> counts the bytes already read, and \<open>max_size\<close> is the number
  of bytes the buffer can hold.
\<close>

record s2n_stuffer =
  blob :: "byte list"
  read_cursor :: nat
  max_size :: nat

text \<open>
  Modelled from the spec: the state of the async signing operation (section 4.3,
  \<open>NotStarted \<rightarrow> Pending \<rightarrow> Completed | Failed\<close>). A pending operation holds the request
  registered with the backend: the signature algorithm and the digest snapshot.
\<close>

datatype s2n_async_state =
    NotStarted
  | Pending s2n_signature_algorithm s2n_hash_state
  | Completed
  | Failed

text \<open>
  The calls into the key primitives and into hash-algorithm minimization, in the order
  they happen. This log is not a field of the C connection: it is kept so that theorems
  can say whether, and how often, such a call was made.
\<close>

datatype s2n_call = CallVerify bool | CallSign | CallMinimize

text \<open>
  \<open>conn->handshake.hashes\<close>: the running transcript hash of every algorithm that has
  been started, and the workspace the snapshot is copied into.
\<close>

record s2n_handshake_hashes =
  running :: "s2n_hash_algorithm \<Rightarrow> s2n_hash_state option"
  hash_workspace :: s2n_hash_state

record s2n_handshake =
  io :: s2n_stuffer
  hashes :: "s2n_handshake_hashes option"
  async_state :: s2n_async_state
  required_hash_algs :: "s2n_hash_algorithm list"

record s2n_handshake_params =
  client_cert_sig_scheme :: s2n_signature_scheme
  client_public_key :: s2n_pkey
  client_cert_pkey_type :: s2n_pkey_type
  our_private_key :: s2n_pkey

text \<open>
  The connection. \<open>accepted_sig_schemes\<close> is the set of schemes previously offered or
  accepted for this connection, \<open>async_pkey_cb\<close> says whether an asynchronous signing
  backend is configured, \<open>calls\<close> is the log described above.
\<close>

record s2n_connection =
  actual_protocol_version :: nat
  handshake :: s2n_handshake
  handshake_params :: s2n_handshake_params
  accepted_sig_schemes :: "s2n_signature_scheme list"
  async_pkey_cb :: bool
  calls :: "s2n_call list"

text \<open>
  The primitives and tables the code relies on and that no source at hand defines; they
  are parameters of the model (section 6 of the specification lists them):
  \<^item> \<open>hash_digest\<close>: the final digest-read on a hash state; it yields the digest and the
    state it leaves behind;
  \<^item> \<open>pkey_verify\<close>, \<open>pkey_sign\<close>: the raw verify and sign over a digest;
  \<^item> \<open>default_scheme_for\<close>: the default scheme of a version and key type, if any;
  \<^item> \<open>needed_later\<close>: the hash algorithms that later messages of a version still need;
  \<^item> \<open>minimize_fails\<close>: whether hash-algorithm minimization fails, for a version and a
    list of required algorithms (the code guards the call, so it can fail).
\<close>

record s2n_externals =
  hash_digest :: "s2n_hash_state \<Rightarrow> byte list \<times> s2n_hash_state"
  pkey_verify :: "s2n_pkey \<Rightarrow> s2n_signature_algorithm \<Rightarrow> byte list \<Rightarrow> byte list \<Rightarrow> bool"
  pkey_sign :: "s2n_pkey \<Rightarrow> s2n_signature_algorithm \<Rightarrow> byte list \<Rightarrow> byte list option"
  default_scheme_for :: "nat \<Rightarrow> s2n_pkey_type \<Rightarrow> s2n_signature_scheme option"
  needed_later :: "nat \<Rightarrow> s2n_hash_algorithm \<Rightarrow> bool"
  minimize_fails :: "nat \<Rightarrow> s2n_hash_algorithm list \<Rightarrow> bool"

text \<open>
  Modelled from the spec: the constant \<open>S2N_TLS12\<close> of the absent public header, the
  version that introduced explicit signature-scheme negotiation. The header gives it the
  value 33; the code and the theorems only compare versions with it.
\<close>

definition S2N_TLS12 :: nat where
  "S2N_TLS12 = 33"

subsection \<open>Error propagation\<close>

text \<open>
  Modelled from the spec: the macro \<open>POSIX_GUARD(x)\<close> of the absent safety header.
  Errors propagate immediately out of the step (section 7): the macro returns from the
  enclosing function when \<open>x\<close> fails, with the state as \<open>x\<close> left it, and goes on
  otherwise. \<open>POSIX_ENSURE_REF(p)\<close>, of the same header, returns with \<open>NullError\<close>
  when \<open>p\<close> is null; it is written out as a case distinction where the code uses it.
\<close>

definition POSIX_GUARD ::
  "(s2n_error + 'a) \<times> 's \<Rightarrow> ('a \<Rightarrow> 's \<Rightarrow> (s2n_error + 'b) \<times> 's) \<Rightarrow> (s2n_error + 'b) \<times> 's" where
  "POSIX_GUARD r k = (case r of (Inl e, s) \<Rightarrow> (Inl e, s) | (Inr a, s) \<Rightarrow> k a s)"

subsection \<open>The stuffer\<close>

text \<open>
  Modelled from the spec: the wire format of a 16-bit integer, two bytes in big-endian
  order, and the number of unread bytes of a buffer.
\<close>

definition u16_bytes :: "16 word \<Rightarrow> byte list" where
  "u16_bytes v = [of_nat (unat v div 256), of_nat (unat v mod 256)]"

definition bytes_u16 :: "byte \<Rightarrow> byte \<Rightarrow> 16 word" where
  "bytes_u16 hi lo = of_nat (unat hi * 256 + unat lo)"

definition s2n_stuffer_data_available :: "s2n_stuffer \<Rightarrow> nat" where
  "s2n_stuffer_data_available st = length (blob st) - read_cursor st"

text \<open>
  Modelled from the spec: \<open>s2n_stuffer_read_uint16\<close>, whose source is absent. A
  sequential read of a fixed-width integer over the handshake I/O buffer, which fails if
  insufficient bytes remain. A failed read consumes nothing.
\<close>

definition s2n_stuffer_read_uint16 :: "s2n_stuffer \<Rightarrow> (s2n_error + 16 word) \<times> s2n_stuffer" where
  "s2n_stuffer_read_uint16 st =
     (if read_cursor st + 2 \<le> length (blob st)
      then (Inr (bytes_u16 (blob st ! read_cursor st) (blob st ! (read_cursor st + 1))),
            st\<lparr>read_cursor := read_cursor st + 2\<rparr>)
      else (Inl MalformedMessageError, st))"

text \<open>
  Modelled from the spec: \<open>s2n_stuffer_raw_read\<close>, whose source is absent: the read of
  a raw byte range. The C function returns a pointer to the bytes, or null if fewer than
  \<open>n\<close> remain; \<open>None\<close> is the null pointer, and a failed read consumes nothing.
\<close>

definition s2n_stuffer_raw_read :: "s2n_stuffer \<Rightarrow> nat \<Rightarrow> byte list option \<times> s2n_stuffer" where
  "s2n_stuffer_raw_read st n =
     (if read_cursor st + n \<le> length (blob st)
      then (Some (take n (drop (read_cursor st) (blob st))), st\<lparr>read_cursor := read_cursor st + n\<rparr>)
      else (None, st))"

text \<open>
  Modelled from the spec: \<open>s2n_stuffer_write\<close> and \<open>s2n_stuffer_write_uint16\<close>,
  whose sources are absent: sequential writes of a raw byte range and of a fixed-width
  integer. The code guards both, so they can fail; a write that does not fit fails and
  writes nothing.
\<close>

definition s2n_stuffer_write :: "s2n_stuffer \<Rightarrow> byte list \<Rightarrow> (s2n_error + unit) \<times> s2n_stuffer" where
  "s2n_stuffer_write st bs =
     (if length (blob st) + length bs \<le> max_size st
      then (Inr (), st\<lparr>blob := blob st @ bs\<rparr>)
      else (Inl BufferFullError, st))"

definition s2n_stuffer_write_uint16 :: "s2n_stuffer \<Rightarrow> 16 word \<Rightarrow> (s2n_error + unit) \<times> s2n_stuffer" where
  "s2n_stuffer_write_uint16 st v = s2n_stuffer_write st (u16_bytes v)"

text \<open>An operation on \<open>&conn->handshake.io\<close> is an operation on the connection.\<close>

definition set_io :: "s2n_connection \<Rightarrow> s2n_stuffer \<Rightarrow> s2n_connection" where
  "set_io c st = c\<lparr>handshake := (handshake c)\<lparr>io := st\<rparr>\<rparr>"

definition on_io :: "(s2n_stuffer \<Rightarrow> 'r \<times> s2n_stuffer) \<Rightarrow> s2n_connection \<Rightarrow> 'r \<times> s2n_connection" where
  "on_io f c = (case f (io (handshake c)) of (r, st) \<Rightarrow> (r, set_io c st))"

subsection \<open>Scheme negotiation\<close>

definition set_client_cert_sig_scheme :: "s2n_connection \<Rightarrow> s2n_signature_scheme \<Rightarrow> s2n_connection" where
  "set_client_cert_sig_scheme c s = c\<lparr>handshake_params := (handshake_params c)\<lparr>client_cert_sig_scheme := s\<rparr>\<rparr>"

text \<open>
  Modelled from the spec: \<open>s2n_choose_default_sig_scheme(conn, out, S2N_CLIENT)\<close>, whose
  source is absent. It chooses the default scheme for the client role from version and key
  type, consumes no wire bytes, and signals a negotiation error if no default exists. Both
  callers pass \<open>&conn->handshake_params.client_cert_sig_scheme\<close> as \<open>out\<close>, so the
  chosen scheme is stored there.
\<close>

definition s2n_choose_default_sig_scheme ::
  "s2n_externals \<Rightarrow> s2n_connection \<Rightarrow> (s2n_error + unit) \<times> s2n_connection" where
  "s2n_choose_default_sig_scheme E c =
     (case default_scheme_for E (actual_protocol_version c) (client_cert_pkey_type (handshake_params c)) of
        None \<Rightarrow> (Inl NegotiationError, c)
      | Some s \<Rightarrow> (Inr (), set_client_cert_sig_scheme c s))"

text \<open>
  Modelled from the spec: \<open>s2n_get_and_validate_negotiated_signature_scheme(conn, in, out)\<close>,
  whose source is absent. It reads a 2-byte scheme identifier from the inbound buffer and
  validates that it is a member of the set previously offered or accepted for this
  connection; it rejects otherwise. The comment at line 43 of the source says what that
  set holds: the preference list that was sent, and the default scheme. The caller passes
  \<open>&conn->handshake_params.client_cert_sig_scheme\<close> as \<open>out\<close>.
\<close>

definition s2n_get_and_validate_negotiated_signature_scheme ::
  "s2n_connection \<Rightarrow> (s2n_error + unit) \<times> s2n_connection" where
  "s2n_get_and_validate_negotiated_signature_scheme c =
     POSIX_GUARD (on_io s2n_stuffer_read_uint16 c) (\<lambda>actual_iana_val c1.
       case find (\<lambda>s. iana_value s = actual_iana_val) (accepted_sig_schemes c1) of
         None \<Rightarrow> (Inl NegotiationError, c1)
       | Some s \<Rightarrow> (Inr (), set_client_cert_sig_scheme c1 s))"

subsection \<open>The transcript hash service\<close>

definition set_hash_workspace :: "s2n_connection \<Rightarrow> s2n_hash_state \<Rightarrow> s2n_connection" where
  "set_hash_workspace c w =
     c\<lparr>handshake := (handshake c)\<lparr>hashes :=
         map_option (\<lambda>h. h\<lparr>hash_workspace := w\<rparr>) (hashes (handshake c))\<rparr>\<rparr>"

definition get_hash_workspace :: "s2n_connection \<Rightarrow> s2n_hash_state" where
  "get_hash_workspace c = (case hashes (handshake c) of None \<Rightarrow> [] | Some h \<Rightarrow> hash_workspace h)"

text \<open>
  A \<open>struct s2n_hash_state *\<close> that points into the connection: at the workspace, as
  \<open>&conn->handshake.hashes->hash_workspace\<close> does, or at the running state of an
  algorithm. A function that is handed such a pointer reads and modifies the state it
  points at, and no other. \<open>hash_at\<close> reads through the pointer, \<open>set_hash_at\<close>
  writes through it.
\<close>

datatype s2n_hash_ref = HashWorkspace | RunningHash s2n_hash_algorithm

definition hash_at :: "s2n_connection \<Rightarrow> s2n_hash_ref \<Rightarrow> s2n_hash_state" where
  "hash_at c p =
     (case p of
        HashWorkspace \<Rightarrow> get_hash_workspace c
      | RunningHash a \<Rightarrow>
          (case hashes (handshake c) of
             None \<Rightarrow> []
           | Some h \<Rightarrow> (case running h a of None \<Rightarrow> [] | Some x \<Rightarrow> x)))"

definition set_hash_at :: "s2n_connection \<Rightarrow> s2n_hash_ref \<Rightarrow> s2n_hash_state \<Rightarrow> s2n_connection" where
  "set_hash_at c p w =
     (case p of
        HashWorkspace \<Rightarrow> set_hash_workspace c w
      | RunningHash a \<Rightarrow>
          c\<lparr>handshake := (handshake c)\<lparr>hashes :=
              map_option (\<lambda>h. h\<lparr>running := (running h)(a \<mapsto> w)\<rparr>) (hashes (handshake c))\<rparr>\<rparr>)"

text \<open>
  Modelled from the spec: \<open>s2n_handshake_get_hash_state(conn, alg, &hash_state)\<close>, whose
  source is absent. It retrieves the live running digest for the algorithm and fails if
  the algorithm was never started. The state is copied out into the caller's local
  variable; the connection is left as it is.
\<close>

definition s2n_handshake_get_hash_state ::
  "s2n_connection \<Rightarrow> s2n_hash_algorithm \<Rightarrow> (s2n_error + s2n_hash_state) \<times> s2n_connection" where
  "s2n_handshake_get_hash_state c alg =
     (case hashes (handshake c) of
        None \<Rightarrow> (Inl NullError, c)
      | Some h \<Rightarrow> (case running h alg of
                     None \<Rightarrow> (Inl TranscriptStateError, c)
                   | Some hs \<Rightarrow> (Inr hs, c)))"

text \<open>
  Modelled from the spec: \<open>s2n_hash_copy(to, from)\<close>, whose source is absent. It copies
  the state \<open>from\<close> (in the code the local \<open>hash_state\<close>) into the state that
  \<open>to\<close> points at.
\<close>

definition s2n_hash_copy ::
  "s2n_connection \<Rightarrow> s2n_hash_ref \<Rightarrow> s2n_hash_state \<Rightarrow> (s2n_error + unit) \<times> s2n_connection" where
  "s2n_hash_copy c to from = (Inr (), set_hash_at c to from)"

text \<open>
  Modelled from the spec: hash-algorithm minimization
  (\<open>s2n_conn_update_required_handshake_hashes\<close>), whose source is absent. It prunes the
  required hash algorithms (the source calls the step "minimize required handshake hash
  algs") to those that later messages still need; the retained set is a subset of the set
  retained before (section 8). After it the connection may discard the running states of
  the pruned algorithms; the model records the pruning and leaves the discarding, which
  is not part of the verify or sign operation, to the connection. Both callers guard the
  call, so it can fail; then it reports \<open>MinimizationError\<close> and prunes nothing. The
  call is logged either way.
\<close>

definition s2n_conn_update_required_handshake_hashes ::
  "s2n_externals \<Rightarrow> s2n_connection \<Rightarrow> (s2n_error + unit) \<times> s2n_connection" where
  "s2n_conn_update_required_handshake_hashes E c =
     (if minimize_fails E (actual_protocol_version c) (required_hash_algs (handshake c))
      then (Inl MinimizationError, c\<lparr>calls := calls c @ [CallMinimize]\<rparr>)
      else (Inr (), c\<lparr>handshake := (handshake c)\<lparr>required_hash_algs :=
                         filter (needed_later E (actual_protocol_version c))
                           (required_hash_algs (handshake c))\<rparr>,
                     calls := calls c @ [CallMinimize]\<rparr>))"

subsection \<open>The key primitives\<close>

text \<open>
  Modelled from the spec: \<open>s2n_pkey_verify(pub, sig_alg, digest, signature)\<close>, whose
  source is absent. The digest is read off the hash state that \<open>digest\<close> points at,
  which modifies that state (the source's comment: the verify digest computation may
  modify the hash state), and the signature is checked against it with the public key.
\<close>

definition s2n_pkey_verify ::
  "s2n_externals \<Rightarrow> s2n_connection \<Rightarrow> s2n_pkey \<Rightarrow> s2n_signature_algorithm \<Rightarrow> s2n_hash_ref
     \<Rightarrow> byte list \<Rightarrow> (s2n_error + unit) \<times> s2n_connection" where
  "s2n_pkey_verify E c pub alg digest signature =
     (case hash_digest E (hash_at c digest) of (d, w) \<Rightarrow>
        (let ok = pkey_verify E pub alg d signature;
             c1 = (set_hash_at c digest w)\<lparr>calls := calls c @ [CallVerify ok]\<rparr>
         in (if ok then Inr () else Inl VerificationFailure, c1)))"

subsection \<open>The async signing operation\<close>

definition set_async_state :: "s2n_connection \<Rightarrow> s2n_async_state \<Rightarrow> s2n_connection" where
  "set_async_state c a = c\<lparr>handshake := (handshake c)\<lparr>async_state := a\<rparr>\<rparr>"

text \<open>
  Modelled from the spec: the macro \<open>S2N_ASYNC_PKEY_GUARD(conn)\<close>, whose source is
  absent. \<open>Some r\<close> means that the macro returns \<open>r\<close> from the enclosing function,
  \<open>None\<close> that control falls through to the next statement.
  A caller re-invoked while the operation is pending is told to retry later, without
  restarting the operation. A caller re-invoked after completion observes it: the handle is
  consumed and discarded, and the step succeeds. A failed operation is a fatal error.
\<close>

definition S2N_ASYNC_PKEY_GUARD :: "s2n_connection \<Rightarrow> ((s2n_error + unit) \<times> s2n_connection) option" where
  "S2N_ASYNC_PKEY_GUARD c =
     (case async_state (handshake c) of
        NotStarted \<Rightarrow> None
      | Pending _ _ \<Rightarrow> Some (Inl AsyncPending, c)
      | Completed \<Rightarrow> Some (Inr (), set_async_state c NotStarted)
      | Failed \<Rightarrow> Some (Inl AsyncOperationError, c))"

text \<open>
  Modelled from the spec: the macro \<open>S2N_ASYNC_PKEY_SIGN(conn, sig_alg, digest, on_complete)\<close>,
  whose source is absent; it is the \<open>start\<close> of section 4.3 and it returns from the
  enclosing function. The signature is over the digest of the hash state that \<open>digest\<close>
  points at.
  With an asynchronous backend the request is registered with a copy of that state, the
  operation becomes pending and control returns to the caller, who must come back later.
  With a synchronous backend the digest is read off that state, which modifies it, the
  signature is computed at once from the private key and handed to \<open>on_complete\<close>; the
  handle does not outlive the call. A signing failure is fatal.
\<close>

definition S2N_ASYNC_PKEY_SIGN ::
  "s2n_externals \<Rightarrow> s2n_connection \<Rightarrow> s2n_signature_algorithm \<Rightarrow> s2n_hash_ref
     \<Rightarrow> (s2n_connection \<Rightarrow> byte list \<Rightarrow> (s2n_error + unit) \<times> s2n_connection)
     \<Rightarrow> (s2n_error + unit) \<times> s2n_connection" where
  "S2N_ASYNC_PKEY_SIGN E c alg digest on_complete =
     (let c0 = c\<lparr>calls := calls c @ [CallSign]\<rparr> in
      if async_pkey_cb c
      then (Inl AsyncPending, set_async_state c0 (Pending alg (hash_at c digest)))
      else (case hash_digest E (hash_at c digest) of (d, w) \<Rightarrow>
              (case pkey_sign E (our_private_key (handshake_params c)) alg d of
                 None \<Rightarrow> (Inl AsyncOperationError, set_hash_at c0 digest w)
               | Some signature \<Rightarrow> on_complete (set_hash_at c0 digest w) signature)))"

text \<open>
  Modelled from the spec: the resume entry point of section 4.3, for the moment the
  backend has produced its result. On a pending operation the backend's signature over the
  registered digest goes to the completion callback, once, and the operation becomes
  \<open>Completed\<close>; a backend or callback failure makes it \<open>Failed\<close>. Resuming an
  operation that is not pending is an error and changes nothing.
\<close>

definition async_resume ::
  "s2n_externals \<Rightarrow> s2n_connection
     \<Rightarrow> (s2n_connection \<Rightarrow> byte list \<Rightarrow> (s2n_error + unit) \<times> s2n_connection)
     \<Rightarrow> (s2n_error + unit) \<times> s2n_connection" where
  "async_resume E c on_complete =
     (case async_state (handshake c) of
        Pending alg digest \<Rightarrow>
          (case pkey_sign E (our_private_key (handshake_params c)) alg (fst (hash_digest E digest)) of
             None \<Rightarrow> (Inl AsyncOperationError, set_async_state c Failed)
           | Some signature \<Rightarrow>
               (case on_complete c signature of
                  (Inl e, c1) \<Rightarrow> (Inl e, set_async_state c1 Failed)
                | (Inr u, c1) \<Rightarrow> (Inr (), set_async_state c1 Completed)))
      | _ \<Rightarrow> (Inl AsyncOperationError, c))"

subsection \<open>The three functions of the file\<close>

text \<open>
  \<open>s2n_client_cert_verify_recv\<close> (lines 32 to 66). \<open>None\<close> is the null connection.
  \<open>chosen_sig_scheme\<close> is a pointer to \<open>conn->handshake_params.client_cert_sig_scheme\<close>,
  so the negotiation writes that field and the later steps read it. The local
  \<open>hash_state\<close> is the value that \<open>s2n_handshake_get_hash_state\<close> yields.
  \<open>HashWorkspace\<close> stands for \<open>&conn->handshake.hashes->hash_workspace\<close>, which
  line 57 passes as the target of the copy and line 60 as the digest.
\<close>

definition s2n_client_cert_verify_recv ::
  "s2n_externals \<Rightarrow> s2n_connection option \<Rightarrow> (s2n_error + unit) \<times> s2n_connection option" where
  "s2n_client_cert_verify_recv E conn =
     (case conn of
        None \<Rightarrow> (Inl NullError, None)
      | Some c \<Rightarrow>
     (case hashes (handshake c) of
        None \<Rightarrow> (Inl NullError, Some c)
      | Some _ \<Rightarrow> map_prod id Some (
     POSIX_GUARD (if actual_protocol_version c < S2N_TLS12
                  then s2n_choose_default_sig_scheme E c
                  else s2n_get_and_validate_negotiated_signature_scheme c) (\<lambda>_ c.
     POSIX_GUARD (on_io s2n_stuffer_read_uint16 c) (\<lambda>signature_size c.
     case on_io (\<lambda>st. s2n_stuffer_raw_read st (unat signature_size)) c of
       (None, c) \<Rightarrow> (Inl NullError, c)
     | (Some signature, c) \<Rightarrow>
     POSIX_GUARD (s2n_handshake_get_hash_state c
                    (hash_alg (client_cert_sig_scheme (handshake_params c)))) (\<lambda>hash_state c.
     POSIX_GUARD (s2n_hash_copy c HashWorkspace hash_state) (\<lambda>_ c.
     POSIX_GUARD (s2n_pkey_verify E c (client_public_key (handshake_params c))
                    (sig_alg (client_cert_sig_scheme (handshake_params c)))
                    HashWorkspace signature) (\<lambda>_ c.
     POSIX_GUARD (s2n_conn_update_required_handshake_hashes E c) (\<lambda>_ c.
     (Inr (), c))))))))))"

text \<open>
  \<open>s2n_client_cert_verify_send_complete\<close> (lines 91 to 102). \<open>signature->size\<close> is a
  32-bit count passed to a 16-bit parameter: the conversion keeps the low 16 bits.
\<close>

definition s2n_client_cert_verify_send_complete ::
  "s2n_externals \<Rightarrow> s2n_connection \<Rightarrow> byte list \<Rightarrow> (s2n_error + unit) \<times> s2n_connection" where
  "s2n_client_cert_verify_send_complete E c signature =
     POSIX_GUARD (on_io (\<lambda>st. s2n_stuffer_write_uint16 st (of_nat (length signature))) c) (\<lambda>_ c.
     POSIX_GUARD (on_io (\<lambda>st. s2n_stuffer_write st signature) c) (\<lambda>_ c.
     POSIX_GUARD (s2n_conn_update_required_handshake_hashes E c) (\<lambda>_ c.
     (Inr (), c))))"

text \<open>
  \<open>s2n_client_cert_verify_send\<close> (lines 68 to 89). Line 86 passes the workspace as the
  target of the copy and line 88 as the digest.
\<close>

definition s2n_client_cert_verify_send ::
  "s2n_externals \<Rightarrow> s2n_connection option \<Rightarrow> (s2n_error + unit) \<times> s2n_connection option" where
  "s2n_client_cert_verify_send E conn =
     (case conn of
        None \<Rightarrow> (Inl NullError, None)
      | Some c \<Rightarrow>
     (case hashes (handshake c) of
        None \<Rightarrow> (Inl NullError, Some c)
      | Some _ \<Rightarrow> map_prod id Some (
     case S2N_ASYNC_PKEY_GUARD c of
       Some r \<Rightarrow> r
     | None \<Rightarrow>
     POSIX_GUARD (if actual_protocol_version c < S2N_TLS12
                  then s2n_choose_default_sig_scheme E c
                  else on_io (\<lambda>st. s2n_stuffer_write_uint16 st
                                 (iana_value (client_cert_sig_scheme (handshake_params c)))) c) (\<lambda>_ c.
     POSIX_GUARD (s2n_handshake_get_hash_state c
                    (hash_alg (client_cert_sig_scheme (handshake_params c)))) (\<lambda>hash_state c.
     POSIX_GUARD (s2n_hash_copy c HashWorkspace hash_state) (\<lambda>_ c.
     S2N_ASYNC_PKEY_SIGN E c (sig_alg (client_cert_sig_scheme (handshake_params c)))
       HashWorkspace (s2n_client_cert_verify_send_complete E)))))))"

text \<open>
  The send path as a whole: the send step and, when the signing is asynchronous and the
  step suspends, the completion that the backend's result triggers.
\<close>

definition send_path :: "s2n_externals \<Rightarrow> s2n_connection \<Rightarrow> (s2n_error + unit) \<times> s2n_connection option" where
  "send_path E c =
     (case s2n_client_cert_verify_send E (Some c) of
        (Inl AsyncPending, Some c1) \<Rightarrow>
          map_prod id Some (async_resume E c1 (s2n_client_cert_verify_send_complete E))
      | r \<Rightarrow> r)"

subsection \<open>Concrete connections\<close>

text \<open>
  A small instance on which the model can be run. The digest of a hash state is its bytes
  and reading it appends the byte 255 to the state; a signature is the key followed by the
  first four bytes of the digest, so a key verifies what it has signed; only ECDSA keys
  have a default scheme; minimization never fails.
\<close>

definition s2n_ecdsa_sha256 :: s2n_signature_scheme where
  "s2n_ecdsa_sha256 = \<lparr>iana_value = 0x0403, hash_alg = S2N_HASH_SHA256, sig_alg = S2N_SIGNATURE_ECDSA\<rparr>"

definition s2n_ecdsa_sha1 :: s2n_signature_scheme where
  "s2n_ecdsa_sha1 = \<lparr>iana_value = 0x0203, hash_alg = S2N_HASH_SHA1, sig_alg = S2N_SIGNATURE_ECDSA\<rparr>"

definition s2n_rsa_pkcs1_sha256 :: s2n_signature_scheme where
  "s2n_rsa_pkcs1_sha256 = \<lparr>iana_value = 0x0401, hash_alg = S2N_HASH_SHA256, sig_alg = S2N_SIGNATURE_RSA\<rparr>"

definition toy_externals :: s2n_externals where
  "toy_externals =
     \<lparr>hash_digest = (\<lambda>h. (h, h @ [255])),
      pkey_verify = (\<lambda>k a d s. s = k @ take 4 d),
      pkey_sign = (\<lambda>k a d. Some (k @ take 4 d)),
      default_scheme_for = (\<lambda>v t. if t = S2N_PKEY_TYPE_ECDSA then Some s2n_ecdsa_sha1 else None),
      needed_later = (\<lambda>v a. a = S2N_HASH_SHA256),
      minimize_fails = (\<lambda>v a. False)\<rparr>"

text \<open>The same primitives with a private-key operation that fails.\<close>

definition failing_sign_externals :: s2n_externals where
  "failing_sign_externals = toy_externals\<lparr>pkey_sign := (\<lambda>k a d. None)\<rparr>"

text \<open>The same primitives with a minimization that fails.\<close>

definition failing_minimize_externals :: s2n_externals where
  "failing_minimize_externals = toy_externals\<lparr>minimize_fails := (\<lambda>v a. True)\<rparr>"

definition toy_hashes :: s2n_handshake_hashes where
  "toy_hashes =
     \<lparr>running = (\<lambda>a. if a = S2N_HASH_SHA256 then Some [1, 2, 3]
                     else if a = S2N_HASH_SHA1 then Some [4, 5] else None),
      hash_workspace = []\<rparr>"

text \<open>A TLS 1.2 client about to send CertificateVerify with ECDSA-SHA256 and key 9.\<close>

definition toy_client :: s2n_connection where
  "toy_client =
     \<lparr>actual_protocol_version = 33,
      handshake = \<lparr>io = \<lparr>blob = [], read_cursor = 0, max_size = 64\<rparr>,
                   hashes = Some toy_hashes,
                   async_state = NotStarted,
                   required_hash_algs = [S2N_HASH_SHA1, S2N_HASH_SHA256]\<rparr>,
      handshake_params = \<lparr>client_cert_sig_scheme = s2n_ecdsa_sha256,
                          client_public_key = [],
                          client_cert_pkey_type = S2N_PKEY_TYPE_ECDSA,
                          our_private_key = [9]\<rparr>,
      accepted_sig_schemes = [],
      async_pkey_cb = False,
      calls = []\<rparr>"

text \<open>
  A TLS 1.2 server that has offered ECDSA-SHA256 and RSA-SHA256 and holds the message of
  that client in its buffer: scheme 0x0403, length 4, signature 9 1 2 3.
\<close>

definition toy_server :: s2n_connection where
  "toy_server =
     \<lparr>actual_protocol_version = 33,
      handshake = \<lparr>io = \<lparr>blob = [4, 3, 0, 4, 9, 1, 2, 3], read_cursor = 0, max_size = 64\<rparr>,
                   hashes = Some toy_hashes,
                   async_state = NotStarted,
                   required_hash_algs = [S2N_HASH_SHA1, S2N_HASH_SHA256]\<rparr>,
      handshake_params = \<lparr>client_cert_sig_scheme = s2n_rsa_pkcs1_sha256,
                          client_public_key = [9],
                          client_cert_pkey_type = S2N_PKEY_TYPE_ECDSA,
                          our_private_key = []\<rparr>,
      accepted_sig_schemes = [s2n_ecdsa_sha256, s2n_rsa_pkcs1_sha256],
      async_pkey_cb = False,
      calls = []\<rparr>"

text \<open>The server with another content of its buffer.\<close>

definition toy_server_with :: "byte list \<Rightarrow> s2n_connection" where
  "toy_server_with bs = set_io toy_server \<lparr>blob = bs, read_cursor = 0, max_size = 64\<rparr>"

text \<open>
  The same two connections on TLS 1.1, where the scheme is the ECDSA default
  (ECDSA-SHA1); the server holds length 3, signature 9 4 5.
\<close>

definition toy_legacy_client :: s2n_connection where
  "toy_legacy_client = toy_client\<lparr>actual_protocol_version := 32\<rparr>"

definition toy_legacy_server :: s2n_connection where
  "toy_legacy_server = (toy_server_with [0, 3, 9, 4, 5])\<lparr>actual_protocol_version := 32\<rparr>"

text \<open>
  The TLS 1.2 client with an asynchronous signing backend, as the send step leaves it
  (scheme id written, request pending), and as the completion leaves it.
\<close>

definition toy_async_client :: s2n_connection where
  "toy_async_client = toy_client\<lparr>async_pkey_cb := True\<rparr>"

definition toy_async_pending :: s2n_connection where
  "toy_async_pending =
     toy_async_client
       \<lparr>handshake := (handshake toy_async_client)
          \<lparr>io := \<lparr>blob = [4, 3], read_cursor = 0, max_size = 64\<rparr>,
           hashes := Some (toy_hashes\<lparr>hash_workspace := [1, 2, 3]\<rparr>),
           async_state := Pending S2N_SIGNATURE_ECDSA [1, 2, 3]\<rparr>,
        calls := [CallSign]\<rparr>"

definition toy_async_completed :: s2n_connection where
  "toy_async_completed =
     toy_async_pending
       \<lparr>handshake := (handshake toy_async_pending)
          \<lparr>io := \<lparr>blob = [4, 3, 0, 4, 9, 1, 2, 3], read_cursor = 0, max_size = 64\<rparr>,
           async_state := Completed,
           required_hash_algs := [S2N_HASH_SHA256]\<rparr>,
        calls := [CallSign, CallMinimize]\<rparr>"


section \<open>Auxiliary facts\<close>

subsection \<open>Unfolding\<close>

lemma POSIX_GUARD_Inl [simp]: "POSIX_GUARD (Inl e, s) k = (Inl e, s)"
  by (simp add: POSIX_GUARD_def)

lemma POSIX_GUARD_Inr [simp]: "POSIX_GUARD (Inr a, s) k = k a s"
  by (simp add: POSIX_GUARD_def)

lemma map_prod_Some_eq [simp]: "map_prod id Some x = (r, Some c') \<longleftrightarrow> x = (r, c')"
  by (cases x) auto

lemma hash_at_workspace [simp]: "hash_at c HashWorkspace = get_hash_workspace c"
  by (simp add: hash_at_def)

lemma set_hash_at_workspace [simp]: "set_hash_at c HashWorkspace w = set_hash_workspace c w"
  by (simp add: set_hash_at_def)

lemmas conn_defs = set_io_def on_io_def set_client_cert_sig_scheme_def set_hash_workspace_def
  get_hash_workspace_def set_async_state_def

lemmas helper_defs = s2n_choose_default_sig_scheme_def s2n_get_and_validate_negotiated_signature_scheme_def
  s2n_handshake_get_hash_state_def s2n_hash_copy_def s2n_conn_update_required_handshake_hashes_def
  s2n_pkey_verify_def S2N_ASYNC_PKEY_GUARD_def S2N_ASYNC_PKEY_SIGN_def
  s2n_stuffer_read_uint16_def s2n_stuffer_raw_read_def s2n_stuffer_write_def s2n_stuffer_write_uint16_def

lemmas toy_defs = toy_externals_def failing_sign_externals_def failing_minimize_externals_def
  toy_hashes_def toy_client_def toy_server_def
  toy_server_with_def toy_legacy_client_def toy_legacy_server_def
  toy_async_client_def toy_async_pending_def toy_async_completed_def
  s2n_ecdsa_sha256_def s2n_ecdsa_sha1_def s2n_rsa_pkcs1_sha256_def S2N_TLS12_def

lemmas exec_defs = s2n_client_cert_verify_recv_def s2n_client_cert_verify_send_def
  s2n_client_cert_verify_send_complete_def async_resume_def send_path_def
  conn_defs helper_defs u16_bytes_def bytes_u16_def Let_def

subsection \<open>The two-byte integers on the wire\<close>

lemma bytes_u16_u16_bytes: "bytes_u16 (of_nat (unat v div 256)) (of_nat (unat v mod 256)) = v"
proof -
  have "unat v < 2 ^ 16" using unsigned_less [of v, where ?'a = nat] by simp
  then have "unat v div 256 < 256" by simp
  then have a: "unat (of_nat (unat v div 256) :: byte) = unat v div 256"
    by (simp add: unat_of_nat)
  have b: "unat (of_nat (unat v mod 256) :: byte) = unat v mod 256"
    by (simp add: unat_of_nat)
  show ?thesis by (simp add: bytes_u16_def a b)
qed

lemma read_uint16_drop:
  assumes "drop (read_cursor st) (blob st) = u16_bytes v @ rest"
  shows "s2n_stuffer_read_uint16 st = (Inr v, st\<lparr>read_cursor := read_cursor st + 2\<rparr>)"
    and "drop (read_cursor st + 2) (blob st) = rest"
proof -
  let ?n = "read_cursor st" and ?xs = "blob st"
  have d: "drop ?n ?xs = of_nat (unat v div 256) # of_nat (unat v mod 256) # rest"
    using assms by (simp add: u16_bytes_def)
  have "length (drop ?n ?xs) = 2 + length rest" by (simp add: d)
  then have len: "?n + 2 \<le> length ?xs" by simp
  have x0: "?xs ! ?n = of_nat (unat v div 256)" using d by (rule nth_via_drop)
  have "drop ?n ?xs ! 1 = ?xs ! (?n + 1)" using len by (simp add: nth_drop)
  then have x1: "?xs ! (?n + 1) = of_nat (unat v mod 256)" by (simp add: d)
  show "s2n_stuffer_read_uint16 st = (Inr v, st\<lparr>read_cursor := read_cursor st + 2\<rparr>)"
    using len by (simp add: s2n_stuffer_read_uint16_def x0 x1 bytes_u16_u16_bytes del: One_nat_def)
  have "drop (?n + 2) ?xs = drop 2 (drop ?n ?xs)" by (simp add: add.commute)
  then show "drop (?n + 2) ?xs = rest" by (simp add: d)
qed

lemma raw_read_drop:
  assumes "drop (read_cursor st) (blob st) = bs @ rest" and "read_cursor st \<le> length (blob st)"
  shows "s2n_stuffer_raw_read st (length bs) = (Some bs, st\<lparr>read_cursor := read_cursor st + length bs\<rparr>)"
proof -
  have "length (drop (read_cursor st) (blob st)) = length bs + length rest" by (simp add: assms)
  then have "read_cursor st + length bs \<le> length (blob st)" using assms(2) by simp
  then show ?thesis by (simp add: s2n_stuffer_raw_read_def assms)
qed

subsection \<open>The send path, step by step\<close>

lemma send_complete_exec:
  "s2n_client_cert_verify_send_complete E c sig =
     (if length (blob (io (handshake c))) + 2 \<le> max_size (io (handshake c)) then
        if length (blob (io (handshake c))) + 2 + length sig \<le> max_size (io (handshake c)) then
          s2n_conn_update_required_handshake_hashes E
            (set_io c ((io (handshake c))\<lparr>blob := blob (io (handshake c)) @ u16_bytes (of_nat (length sig)) @ sig\<rparr>))
        else (Inl BufferFullError,
              set_io c ((io (handshake c))\<lparr>blob := blob (io (handshake c)) @ u16_bytes (of_nat (length sig))\<rparr>))
      else (Inl BufferFullError, c))"
  unfolding s2n_client_cert_verify_send_complete_def
  by (simp add: on_io_def set_io_def s2n_stuffer_write_def s2n_stuffer_write_uint16_def u16_bytes_def
       s2n_conn_update_required_handshake_hashes_def)

lemma send_exec:
  assumes "hashes (handshake c) = Some h" and "async_state (handshake c) = NotStarted"
  shows "s2n_client_cert_verify_send E (Some c) = map_prod id Some
     (case (if actual_protocol_version c < S2N_TLS12
            then s2n_choose_default_sig_scheme E c
            else on_io (\<lambda>st. s2n_stuffer_write_uint16 st
                           (iana_value (client_cert_sig_scheme (handshake_params c)))) c) of
        (Inl e, c1) \<Rightarrow> (Inl e, c1)
      | (Inr u, c1) \<Rightarrow>
          (case running h (hash_alg (client_cert_sig_scheme (handshake_params c1))) of
             None \<Rightarrow> (Inl TranscriptStateError, c1)
           | Some hs \<Rightarrow> S2N_ASYNC_PKEY_SIGN E (set_hash_workspace c1 hs)
                          (sig_alg (client_cert_sig_scheme (handshake_params c1)))
                          HashWorkspace (s2n_client_cert_verify_send_complete E)))"
  using assms unfolding s2n_client_cert_verify_send_def
  by (auto simp: S2N_ASYNC_PKEY_GUARD_def POSIX_GUARD_def s2n_choose_default_sig_scheme_def
        s2n_handshake_get_hash_state_def s2n_hash_copy_def conn_defs s2n_stuffer_write_uint16_def
        s2n_stuffer_write_def
      split: option.splits sum.splits prod.splits if_splits)

lemma sign_exec:
  "S2N_ASYNC_PKEY_SIGN E c alg HashWorkspace (s2n_client_cert_verify_send_complete E) = (Inr (), c') \<Longrightarrow>
   \<not> async_pkey_cb c \<and>
   (\<exists>sig. pkey_sign E (our_private_key (handshake_params c)) alg (fst (hash_digest E (get_hash_workspace c))) = Some sig \<and>
      blob (io (handshake c')) = blob (io (handshake c)) @ u16_bytes (of_nat (length sig)) @ sig \<and>
      handshake_params c' = handshake_params c)"
  unfolding S2N_ASYNC_PKEY_SIGN_def send_complete_exec
  by (auto simp: Let_def conn_defs s2n_conn_update_required_handshake_hashes_def
      split: if_splits prod.splits option.splits)

lemma sign_phase:
  assumes "(case S2N_ASYNC_PKEY_SIGN E c alg HashWorkspace (s2n_client_cert_verify_send_complete E) of
              (Inl AsyncPending, c1) \<Rightarrow> async_resume E c1 (s2n_client_cert_verify_send_complete E)
            | r \<Rightarrow> r) = (Inr (), c')"
  shows "\<exists>sig. pkey_sign E (our_private_key (handshake_params c)) alg
                 (fst (hash_digest E (get_hash_workspace c))) = Some sig \<and>
      blob (io (handshake c')) = blob (io (handshake c)) @ u16_bytes (of_nat (length sig)) @ sig \<and>
      handshake_params c' = handshake_params c"
proof (cases "async_pkey_cb c")
  case False
  then have "S2N_ASYNC_PKEY_SIGN E c alg HashWorkspace (s2n_client_cert_verify_send_complete E) = (Inr (), c')"
    using assms
    by (auto simp: S2N_ASYNC_PKEY_SIGN_def Let_def send_complete_exec
          s2n_conn_update_required_handshake_hashes_def
        split: prod.splits option.splits if_splits sum.splits s2n_error.splits)
  then show ?thesis by (rule sign_exec [THEN conjunct2])
next
  case True
  then have "async_resume E
       (set_async_state (c\<lparr>calls := calls c @ [CallSign]\<rparr>) (Pending alg (get_hash_workspace c)))
       (s2n_client_cert_verify_send_complete E) = (Inr (), c')"
    using assms by (simp add: S2N_ASYNC_PKEY_SIGN_def Let_def)
  then show ?thesis
    unfolding async_resume_def send_complete_exec
    by (auto simp: conn_defs s2n_conn_update_required_handshake_hashes_def
        split: option.splits if_splits prod.splits sum.splits)
qed

lemma send_path_exec:
  assumes "hashes (handshake c) = Some h" and "async_state (handshake c) = NotStarted"
  shows "send_path E c = map_prod id Some
     (case (if actual_protocol_version c < S2N_TLS12
            then s2n_choose_default_sig_scheme E c
            else on_io (\<lambda>st. s2n_stuffer_write_uint16 st
                           (iana_value (client_cert_sig_scheme (handshake_params c)))) c) of
        (Inl e, c1) \<Rightarrow> (Inl e, c1)
      | (Inr u, c1) \<Rightarrow>
          (case running h (hash_alg (client_cert_sig_scheme (handshake_params c1))) of
             None \<Rightarrow> (Inl TranscriptStateError, c1)
           | Some hs \<Rightarrow>
              (case S2N_ASYNC_PKEY_SIGN E (set_hash_workspace c1 hs)
                          (sig_alg (client_cert_sig_scheme (handshake_params c1)))
                          HashWorkspace (s2n_client_cert_verify_send_complete E) of
                 (Inl AsyncPending, c2) \<Rightarrow> async_resume E c2 (s2n_client_cert_verify_send_complete E)
               | r \<Rightarrow> r)))"
  unfolding send_path_def send_exec [OF assms]
  by (auto simp: s2n_choose_default_sig_scheme_def on_io_def s2n_stuffer_write_uint16_def
        s2n_stuffer_write_def
      split: prod.splits sum.splits option.splits s2n_error.splits if_splits)

lemma send_path_success:
  assumes "async_state (handshake c) = NotStarted" and "send_path E c = (Inr (), Some c')"
  shows "\<exists>h hs sig sch.
     hashes (handshake c) = Some h \<and>
     (if actual_protocol_version c < S2N_TLS12
      then default_scheme_for E (actual_protocol_version c) (client_cert_pkey_type (handshake_params c)) = Some sch
      else sch = client_cert_sig_scheme (handshake_params c)) \<and>
     client_cert_sig_scheme (handshake_params c') = sch \<and>
     running h (hash_alg sch) = Some hs \<and>
     pkey_sign E (our_private_key (handshake_params c)) (sig_alg sch) (fst (hash_digest E hs)) = Some sig \<and>
     blob (io (handshake c')) = blob (io (handshake c))
        @ (if actual_protocol_version c < S2N_TLS12 then [] else u16_bytes (iana_value sch))
        @ u16_bytes (of_nat (length sig)) @ sig"
proof -
  obtain h where h: "hashes (handshake c) = Some h"
    using assms(2)
    by (cases "hashes (handshake c)") (auto simp: send_path_def s2n_client_cert_verify_send_def)
  note ex = assms(2) [unfolded send_path_exec [OF h assms(1)]]
  show ?thesis
  proof (cases "actual_protocol_version c < S2N_TLS12")
    case True
    with ex obtain sch hs where
        d: "default_scheme_for E (actual_protocol_version c) (client_cert_pkey_type (handshake_params c)) = Some sch"
      and hs: "running h (hash_alg sch) = Some hs"
      and sg: "(case S2N_ASYNC_PKEY_SIGN E (set_hash_workspace (set_client_cert_sig_scheme c sch) hs)
                          (sig_alg sch) HashWorkspace (s2n_client_cert_verify_send_complete E) of
                 (Inl AsyncPending, c2) \<Rightarrow> async_resume E c2 (s2n_client_cert_verify_send_complete E)
               | r \<Rightarrow> r) = (Inr (), c')"
      by (auto simp: s2n_choose_default_sig_scheme_def set_client_cert_sig_scheme_def set_hash_workspace_def
          split: option.splits)
    from sign_phase [OF sg] h show ?thesis
      using True d hs
      by (auto simp: conn_defs)
  next
    case False
    let ?sch = "client_cert_sig_scheme (handshake_params c)"
    let ?c1 = "set_io c ((io (handshake c))\<lparr>blob := blob (io (handshake c)) @ u16_bytes (iana_value ?sch)\<rparr>)"
    from False ex obtain hs where
       hs: "running h (hash_alg ?sch) = Some hs"
      and sg: "(case S2N_ASYNC_PKEY_SIGN E (set_hash_workspace ?c1 hs)
                          (sig_alg ?sch) HashWorkspace (s2n_client_cert_verify_send_complete E) of
                 (Inl AsyncPending, c2) \<Rightarrow> async_resume E c2 (s2n_client_cert_verify_send_complete E)
               | r \<Rightarrow> r) = (Inr (), c')"
      by (auto simp: on_io_def s2n_stuffer_write_uint16_def s2n_stuffer_write_def set_io_def
             set_hash_workspace_def
          split: option.splits if_splits)
    from sign_phase [OF sg] h show ?thesis
      using False hs
      by (auto simp: conn_defs)
  qed
qed

lemma sign_effect:
  assumes "S2N_ASYNC_PKEY_SIGN E c alg HashWorkspace (s2n_client_cert_verify_send_complete E) = (r, c')"
  shows "handshake_params c' = handshake_params c"
    and "r = Inr () \<Longrightarrow>
           \<exists>sig. pkey_sign E (our_private_key (handshake_params c)) alg
                    (fst (hash_digest E (get_hash_workspace c))) = Some sig \<and>
                 blob (io (handshake c')) = blob (io (handshake c)) @ u16_bytes (of_nat (length sig)) @ sig"
    and "r \<noteq> Inr () \<Longrightarrow> blob (io (handshake c')) = blob (io (handshake c)) \<or>
           (\<exists>sig. pkey_sign E (our_private_key (handshake_params c)) alg
                    (fst (hash_digest E (get_hash_workspace c))) = Some sig \<and>
                  (blob (io (handshake c')) = blob (io (handshake c)) @ u16_bytes (of_nat (length sig)) \<or>
                   blob (io (handshake c')) = blob (io (handshake c)) @ u16_bytes (of_nat (length sig)) @ sig))"
    and "r = Inl AsyncPending \<Longrightarrow> blob (io (handshake c')) = blob (io (handshake c)) \<and>
           async_state (handshake c') = Pending alg (get_hash_workspace c) \<and>
           get_hash_workspace c' = get_hash_workspace c"
    and "r = Inr () \<Longrightarrow> hashes (handshake c) \<noteq> None \<Longrightarrow>
           get_hash_workspace c' = snd (hash_digest E (get_hash_workspace c))"
  using assms unfolding S2N_ASYNC_PKEY_SIGN_def send_complete_exec
  by (auto simp: Let_def conn_defs s2n_conn_update_required_handshake_hashes_def
      split: if_splits prod.splits option.splits)

lemma send_legacy:
  assumes "hashes (handshake c) \<noteq> None" and "async_state (handshake c) = NotStarted"
    and "actual_protocol_version c < S2N_TLS12"
    and "s2n_client_cert_verify_send E (Some c) = (r, Some c')"
  shows "(case default_scheme_for E (actual_protocol_version c) (client_cert_pkey_type (handshake_params c)) of
            None \<Rightarrow> r = Inl NegotiationError \<and> c' = c
          | Some d \<Rightarrow> client_cert_sig_scheme (handshake_params c') = d) \<and>
         (r = Inr () \<longrightarrow> (\<exists>sig. blob (io (handshake c')) =
                             blob (io (handshake c)) @ u16_bytes (of_nat (length sig)) @ sig)) \<and>
         (r = Inl AsyncPending \<longrightarrow> blob (io (handshake c')) = blob (io (handshake c)))"
proof -
  from assms(1) obtain h where h: "hashes (handshake c) = Some h" by auto
  note ex = assms(4) [unfolded send_exec [OF h assms(2)], simplified]
  show ?thesis
  proof (cases "default_scheme_for E (actual_protocol_version c) (client_cert_pkey_type (handshake_params c))")
    case None
    with ex assms(3) show ?thesis by (auto simp: s2n_choose_default_sig_scheme_def)
  next
    case (Some d)
    show ?thesis
    proof (cases "running h (hash_alg d)")
      case None
      with ex assms(3) Some show ?thesis
        by (auto simp: s2n_choose_default_sig_scheme_def set_client_cert_sig_scheme_def)
    next
      case (Some hs)
      with ex assms(3) \<open>default_scheme_for E _ _ = Some d\<close>
      have sg: "S2N_ASYNC_PKEY_SIGN E (set_hash_workspace (set_client_cert_sig_scheme c d) hs) (sig_alg d)
                  HashWorkspace (s2n_client_cert_verify_send_complete E) = (r, c')"
        by (simp add: s2n_choose_default_sig_scheme_def set_client_cert_sig_scheme_def)
      from sign_effect [OF sg] \<open>default_scheme_for E _ _ = Some d\<close> show ?thesis
        by (auto simp: conn_defs)
    qed
  qed
qed

lemma send_modern:
  assumes "hashes (handshake c) \<noteq> None" and "async_state (handshake c) = NotStarted"
    and "S2N_TLS12 \<le> actual_protocol_version c"
    and "s2n_client_cert_verify_send E (Some c) = (r, Some c')"
  shows "client_cert_sig_scheme (handshake_params c') = client_cert_sig_scheme (handshake_params c) \<and>
         (if length (blob (io (handshake c))) + 2 \<le> max_size (io (handshake c))
          then \<exists>rest. blob (io (handshake c')) = blob (io (handshake c))
                         @ u16_bytes (iana_value (client_cert_sig_scheme (handshake_params c))) @ rest
          else r = Inl BufferFullError \<and> c' = c) \<and>
         (r = Inr () \<longrightarrow> (\<exists>sig. blob (io (handshake c')) = blob (io (handshake c))
                         @ u16_bytes (iana_value (client_cert_sig_scheme (handshake_params c)))
                         @ u16_bytes (of_nat (length sig)) @ sig)) \<and>
         (r = Inl AsyncPending \<longrightarrow> blob (io (handshake c')) = blob (io (handshake c))
                         @ u16_bytes (iana_value (client_cert_sig_scheme (handshake_params c))))"
proof -
  from assms(1) obtain h where h: "hashes (handshake c) = Some h" by auto
  let ?sch = "client_cert_sig_scheme (handshake_params c)"
  let ?c1 = "set_io c ((io (handshake c))\<lparr>blob := blob (io (handshake c)) @ u16_bytes (iana_value ?sch)\<rparr>)"
  have ver: "\<not> actual_protocol_version c < S2N_TLS12" using assms(3) by simp
  note ex = assms(4) [unfolded send_exec [OF h assms(2)], simplified]
  show ?thesis
  proof (cases "length (blob (io (handshake c))) + 2 \<le> max_size (io (handshake c))")
    case False
    with ex ver show ?thesis
      by (auto simp: on_io_def s2n_stuffer_write_uint16_def s2n_stuffer_write_def u16_bytes_def set_io_def)
  next
    case True
    then have w: "on_io (\<lambda>st. s2n_stuffer_write_uint16 st (iana_value ?sch)) c = (Inr (), ?c1)"
      by (simp add: on_io_def s2n_stuffer_write_uint16_def s2n_stuffer_write_def u16_bytes_def)
    show ?thesis
    proof (cases "running h (hash_alg ?sch)")
      case None
      with ex ver w True show ?thesis by (auto simp: set_io_def)
    next
      case (Some hs)
      with ex ver w
      have sg: "S2N_ASYNC_PKEY_SIGN E (set_hash_workspace ?c1 hs) (sig_alg ?sch)
                  HashWorkspace (s2n_client_cert_verify_send_complete E) = (r, c')"
        by (simp add: set_io_def)
      from sign_effect [OF sg] True show ?thesis
        by (cases "r = Inr ()") (auto simp: conn_defs)
    qed
  qed
qed

lemma write_id_keeps:
  assumes "(if actual_protocol_version c < S2N_TLS12
            then s2n_choose_default_sig_scheme E c
            else on_io (\<lambda>st. s2n_stuffer_write_uint16 st
                           (iana_value (client_cert_sig_scheme (handshake_params c)))) c) = (r, c1)"
  shows "hashes (handshake c1) = hashes (handshake c)"
    and "calls c1 = calls c"
    and "our_private_key (handshake_params c1) = our_private_key (handshake_params c)"
    and "async_pkey_cb c1 = async_pkey_cb c"
    and "r \<noteq> Inr () \<Longrightarrow> c1 = c"
    and "r = Inr () \<Longrightarrow> blob (io (handshake c1)) = blob (io (handshake c))
           @ (if actual_protocol_version c < S2N_TLS12 then []
              else u16_bytes (iana_value (client_cert_sig_scheme (handshake_params c))))"
    and "r = Inr () \<Longrightarrow>
           (if actual_protocol_version c < S2N_TLS12
            then default_scheme_for E (actual_protocol_version c) (client_cert_pkey_type (handshake_params c))
                   = Some (client_cert_sig_scheme (handshake_params c1))
            else client_cert_sig_scheme (handshake_params c1) = client_cert_sig_scheme (handshake_params c))"
  using assms
  by (auto simp: s2n_choose_default_sig_scheme_def conn_defs s2n_stuffer_write_uint16_def
        s2n_stuffer_write_def
      split: if_splits option.splits)

text \<open>
  The send step from a fresh async state, once the scheme is chosen (and its identifier
  written, from TLS 1.2 on) and the running state of the scheme's hash algorithm exists.
\<close>

lemma send_exact:
  assumes h: "hashes (handshake c) = Some h"
    and fresh: "async_state (handshake c) = NotStarted"
    and neg: "(if actual_protocol_version c < S2N_TLS12
               then s2n_choose_default_sig_scheme E c
               else on_io (\<lambda>st. s2n_stuffer_write_uint16 st
                              (iana_value (client_cert_sig_scheme (handshake_params c)))) c) = (Inr (), c1)"
    and hs: "running h (hash_alg (client_cert_sig_scheme (handshake_params c1))) = Some hs"
  shows "s2n_client_cert_verify_send E (Some c) =
     (if async_pkey_cb c
      then (Inl AsyncPending,
            Some (set_async_state ((set_hash_workspace c1 hs)\<lparr>calls := calls c @ [CallSign]\<rparr>)
                    (Pending (sig_alg (client_cert_sig_scheme (handshake_params c1))) hs)))
      else (case pkey_sign E (our_private_key (handshake_params c))
                   (sig_alg (client_cert_sig_scheme (handshake_params c1))) (fst (hash_digest E hs)) of
              None \<Rightarrow> (Inl AsyncOperationError,
                        Some (set_hash_workspace (c1\<lparr>calls := calls c @ [CallSign]\<rparr>)
                                (snd (hash_digest E hs))))
            | Some sig \<Rightarrow> map_prod id Some
                (s2n_client_cert_verify_send_complete E
                   (set_hash_workspace (c1\<lparr>calls := calls c @ [CallSign]\<rparr>) (snd (hash_digest E hs)))
                   sig)))"
proof -
  note keep = write_id_keeps [OF neg]
  obtain d w where dg: "hash_digest E hs = (d, w)" by (cases "hash_digest E hs")
  have h1: "hashes (handshake c1) = Some h" using keep(1) h by simp
  have "s2n_client_cert_verify_send E (Some c) = map_prod id Some
          (S2N_ASYNC_PKEY_SIGN E (set_hash_workspace c1 hs)
             (sig_alg (client_cert_sig_scheme (handshake_params c1)))
             HashWorkspace (s2n_client_cert_verify_send_complete E))"
    unfolding send_exec [OF h fresh] neg by (simp add: hs)
  also have "S2N_ASYNC_PKEY_SIGN E (set_hash_workspace c1 hs)
             (sig_alg (client_cert_sig_scheme (handshake_params c1)))
             HashWorkspace (s2n_client_cert_verify_send_complete E) =
     (if async_pkey_cb c
      then (Inl AsyncPending,
            set_async_state ((set_hash_workspace c1 hs)\<lparr>calls := calls c @ [CallSign]\<rparr>)
                    (Pending (sig_alg (client_cert_sig_scheme (handshake_params c1))) hs))
      else (case pkey_sign E (our_private_key (handshake_params c))
                   (sig_alg (client_cert_sig_scheme (handshake_params c1))) d of
              None \<Rightarrow> (Inl AsyncOperationError,
                        set_hash_workspace (c1\<lparr>calls := calls c @ [CallSign]\<rparr>) w)
            | Some sig \<Rightarrow>
                s2n_client_cert_verify_send_complete E
                   (set_hash_workspace (c1\<lparr>calls := calls c @ [CallSign]\<rparr>) w) sig))"
    using h1 keep(2,3,4)
    by (simp add: S2N_ASYNC_PKEY_SIGN_def Let_def set_hash_workspace_def get_hash_workspace_def
          set_async_state_def dg split: option.splits)
  finally show ?thesis by (simp add: dg id_def split: option.splits)
qed

subsection \<open>The receive path\<close>

lemma negotiation_keeps:
  assumes "(if actual_protocol_version c < S2N_TLS12 then s2n_choose_default_sig_scheme E c
            else s2n_get_and_validate_negotiated_signature_scheme c) = (r, c1)"
  shows "hashes (handshake c1) = hashes (handshake c)"
    and "calls c1 = calls c"
    and "client_public_key (handshake_params c1) = client_public_key (handshake_params c)"
    and "actual_protocol_version c1 = actual_protocol_version c"
    and "required_hash_algs (handshake c1) = required_hash_algs (handshake c)"
  using assms
  by (auto simp: s2n_choose_default_sig_scheme_def s2n_get_and_validate_negotiated_signature_scheme_def
        POSIX_GUARD_def conn_defs s2n_stuffer_read_uint16_def
      split: if_splits option.splits sum.splits prod.splits)

text \<open>
  The receive path once the scheme is negotiated, the length is read, the signature bytes
  are there and the running state of the scheme's hash algorithm exists: the result is
  decided by the verification primitive on the peer's public key, the scheme's signature
  algorithm, the digest of the snapshot and the signature bytes from the wire.
\<close>

lemma recv_exact:
  assumes h: "hashes (handshake c) = Some h"
    and neg: "(if actual_protocol_version c < S2N_TLS12 then s2n_choose_default_sig_scheme E c
               else s2n_get_and_validate_negotiated_signature_scheme c) = (Inr (), c1)"
    and rd: "s2n_stuffer_read_uint16 (io (handshake c1)) = (Inr n, st)"
    and av: "unat n \<le> s2n_stuffer_data_available st"
    and hs: "running h (hash_alg (client_cert_sig_scheme (handshake_params c1))) = Some hs"
  shows "s2n_client_cert_verify_recv E (Some c) =
     (if pkey_verify E (client_public_key (handshake_params c))
            (sig_alg (client_cert_sig_scheme (handshake_params c1)))
            (fst (hash_digest E hs)) (take (unat n) (drop (read_cursor st) (blob st)))
      then map_prod id Some (s2n_conn_update_required_handshake_hashes E
             ((set_hash_workspace (set_io c1 (st\<lparr>read_cursor := read_cursor st + unat n\<rparr>))
                 (snd (hash_digest E hs)))\<lparr>calls := calls c @ [CallVerify True]\<rparr>))
      else (Inl VerificationFailure,
            Some ((set_hash_workspace (set_io c1 (st\<lparr>read_cursor := read_cursor st + unat n\<rparr>))
                     (snd (hash_digest E hs)))\<lparr>calls := calls c @ [CallVerify False]\<rparr>)))"
proof -
  note keep = negotiation_keeps [OF neg]
  have rc: "read_cursor st \<le> length (blob st)" using rd
    by (auto simp: s2n_stuffer_read_uint16_def split: if_splits)
  with av have fits: "read_cursor st + unat n \<le> length (blob st)"
    by (simp add: s2n_stuffer_data_available_def)
  obtain d w where dg: "hash_digest E hs = (d, w)" by (cases "hash_digest E hs")
  have tail: "POSIX_GUARD (on_io s2n_stuffer_read_uint16 c1) (\<lambda>signature_size c.
     case on_io (\<lambda>st. s2n_stuffer_raw_read st (unat signature_size)) c of
       (None, c) \<Rightarrow> (Inl NullError, c)
     | (Some signature, c) \<Rightarrow>
     POSIX_GUARD (s2n_handshake_get_hash_state c
                    (hash_alg (client_cert_sig_scheme (handshake_params c)))) (\<lambda>hash_state c.
     POSIX_GUARD (s2n_hash_copy c HashWorkspace hash_state) (\<lambda>_ c.
     POSIX_GUARD (s2n_pkey_verify E c (client_public_key (handshake_params c))
                    (sig_alg (client_cert_sig_scheme (handshake_params c)))
                    HashWorkspace signature) (\<lambda>_ c.
     POSIX_GUARD (s2n_conn_update_required_handshake_hashes E c) (\<lambda>_ c.
     (Inr (), c)))))) =
     (if pkey_verify E (client_public_key (handshake_params c))
            (sig_alg (client_cert_sig_scheme (handshake_params c1)))
            d (take (unat n) (drop (read_cursor st) (blob st)))
      then s2n_conn_update_required_handshake_hashes E
             ((set_hash_workspace (set_io c1 (st\<lparr>read_cursor := read_cursor st + unat n\<rparr>)) w)
                \<lparr>calls := calls c @ [CallVerify True]\<rparr>)
      else (Inl VerificationFailure,
            (set_hash_workspace (set_io c1 (st\<lparr>read_cursor := read_cursor st + unat n\<rparr>)) w)
               \<lparr>calls := calls c @ [CallVerify False]\<rparr>))"
    using fits keep(1) h
    by (simp add: on_io_def rd set_io_def s2n_stuffer_raw_read_def s2n_handshake_get_hash_state_def hs
          s2n_hash_copy_def set_hash_at_def hash_at_def set_hash_workspace_def get_hash_workspace_def
          s2n_pkey_verify_def dg keep(2) keep(3) Let_def
          s2n_conn_update_required_handshake_hashes_def)
  show ?thesis
  proof (cases "actual_protocol_version c < S2N_TLS12")
    case True
    with neg have "s2n_choose_default_sig_scheme E c = (Inr (), c1)" by simp
    then show ?thesis
      using True h tail by (simp add: s2n_client_cert_verify_recv_def dg)
  next
    case False
    with neg have "s2n_get_and_validate_negotiated_signature_scheme c = (Inr (), c1)" by simp
    then show ?thesis
      using False h tail by (simp add: s2n_client_cert_verify_recv_def dg)
  qed
qed

lemma recv_legacy:
  assumes "hashes (handshake c) \<noteq> None" and "actual_protocol_version c < S2N_TLS12"
    and "s2n_client_cert_verify_recv E (Some c) = (r, Some c')"
  shows "(case default_scheme_for E (actual_protocol_version c) (client_cert_pkey_type (handshake_params c)) of
            None \<Rightarrow> r = Inl NegotiationError \<and> c' = c
          | Some d \<Rightarrow> client_cert_sig_scheme (handshake_params c') = d) \<and>
         (r = Inr () \<longrightarrow> read_cursor (io (handshake c')) = read_cursor (io (handshake c)) + 2 +
            unat (bytes_u16 (blob (io (handshake c)) ! read_cursor (io (handshake c)))
                            (blob (io (handshake c)) ! (read_cursor (io (handshake c)) + 1))))"
  using assms unfolding s2n_client_cert_verify_recv_def
  by (auto simp: conn_defs helper_defs POSIX_GUARD_def Let_def
      split: option.splits sum.splits prod.splits if_splits)

lemma recv_modern:
  assumes "hashes (handshake c) \<noteq> None" and "S2N_TLS12 \<le> actual_protocol_version c"
    and "s2n_client_cert_verify_recv E (Some c) = (Inr (), Some c')"
  shows "iana_value (client_cert_sig_scheme (handshake_params c'))
           = bytes_u16 (blob (io (handshake c)) ! read_cursor (io (handshake c)))
                       (blob (io (handshake c)) ! (read_cursor (io (handshake c)) + 1)) \<and>
         client_cert_sig_scheme (handshake_params c') \<in> set (accepted_sig_schemes c) \<and>
         read_cursor (io (handshake c')) = read_cursor (io (handshake c)) + 4 +
            unat (bytes_u16 (blob (io (handshake c)) ! (read_cursor (io (handshake c)) + 2))
                            (blob (io (handshake c)) ! (read_cursor (io (handshake c)) + 3)))"
  using assms unfolding s2n_client_cert_verify_recv_def
  by (auto simp: conn_defs helper_defs POSIX_GUARD_def Let_def find_Some_iff numeral_3_eq_3
      split: option.splits sum.splits prod.splits if_splits)


section \<open>The claims\<close>


subsection \<open>C10: null connection, null hashes\<close>

text \<open>
  C10. A call of \<open>s2n_client_cert_verify_recv\<close> or \<open>s2n_client_cert_verify_send\<close> with
  a null connection, or with a connection whose \<open>handshake.hashes\<close> is null, returns an
  error at once: the connection comes back exactly as it went in, so no byte of the I/O
  buffer has been read or written and no state has been modified.
\<close>

theorem null_rejected_untouched:
  "s2n_client_cert_verify_recv E None = (Inl NullError, None) \<and>
   s2n_client_cert_verify_send E None = (Inl NullError, None) \<and>
   (hashes (handshake c) = None \<longrightarrow>
      s2n_client_cert_verify_recv E (Some c) = (Inl NullError, Some c) \<and>
      s2n_client_cert_verify_send E (Some c) = (Inl NullError, Some c))"
  by (simp add: s2n_client_cert_verify_recv_def s2n_client_cert_verify_send_def)

theorem null_rejected_untouched_witness:
  "hashes (handshake (toy_server\<lparr>handshake := (handshake toy_server)\<lparr>hashes := None\<rparr>\<rparr>)) = None \<and>
   s2n_client_cert_verify_recv toy_externals
       (Some (toy_server\<lparr>handshake := (handshake toy_server)\<lparr>hashes := None\<rparr>\<rparr>))
     = (Inl NullError, Some (toy_server\<lparr>handshake := (handshake toy_server)\<lparr>hashes := None\<rparr>\<rparr>)) \<and>
   s2n_client_cert_verify_send toy_externals
       (Some (toy_server\<lparr>handshake := (handshake toy_server)\<lparr>hashes := None\<rparr>\<rparr>))
     = (Inl NullError, Some (toy_server\<lparr>handshake := (handshake toy_server)\<lparr>hashes := None\<rparr>\<rparr>))"
  using null_rejected_untouched
    [of toy_externals "toy_server\<lparr>handshake := (handshake toy_server)\<lparr>hashes := None\<rparr>\<rparr>"]
  by simp

subsection \<open>C4: a scheme that was not accepted\<close>

text \<open>
  C4. On the receive path with TLS 1.2 or later, if the 2-byte scheme identifier read from
  the input is not in the set previously offered or accepted for the connection, the call
  returns a negotiation error before any signature processing. The connection it leaves
  is the one it got with the two identifier bytes consumed and nothing else changed: no
  length and no signature byte is read, the workspace is untouched and the log of calls
  shows no verification.
\<close>

theorem unaccepted_scheme_rejected:
  assumes "hashes (handshake c) \<noteq> None" and "S2N_TLS12 \<le> actual_protocol_version c"
    and "s2n_stuffer_read_uint16 (io (handshake c)) = (Inr v, st)"
    and "v \<notin> iana_value ` set (accepted_sig_schemes c)"
  shows "s2n_client_cert_verify_recv E (Some c) = (Inl NegotiationError, Some (set_io c st)) \<and>
         read_cursor st = read_cursor (io (handshake c)) + 2 \<and>
         calls (set_io c st) = calls c \<and>
         get_hash_workspace (set_io c st) = get_hash_workspace c"
proof -
  have "find (\<lambda>s. iana_value s = v) (accepted_sig_schemes c) = None"
    using assms(4) by (fastforce simp: find_None_iff)
  then have "s2n_client_cert_verify_recv E (Some c) = (Inl NegotiationError, Some (set_io c st))"
    using assms(1-3)
    unfolding s2n_client_cert_verify_recv_def
    by (auto simp: conn_defs s2n_get_and_validate_negotiated_signature_scheme_def split: option.splits)
  moreover have "read_cursor st = read_cursor (io (handshake c)) + 2"
    using assms(3) by (auto simp: s2n_stuffer_read_uint16_def split: if_splits)
  ultimately show ?thesis
    by (simp add: set_io_def get_hash_workspace_def)
qed

theorem unaccepted_scheme_rejected_witness:
  "s2n_client_cert_verify_recv toy_externals (Some (toy_server_with [5, 3, 0, 4, 9, 1, 2, 3]))
     = (Inl NegotiationError,
        Some (set_io toy_server \<lparr>blob = [5, 3, 0, 4, 9, 1, 2, 3], read_cursor = 2, max_size = 64\<rparr>))"
proof -
  let ?c = "toy_server_with [5, 3, 0, 4, 9, 1, 2, 3]"
  let ?st = "\<lparr>blob = [5, 3, 0, 4, 9, 1, 2, 3], read_cursor = 2, max_size = 64\<rparr> :: s2n_stuffer"
  have h1: "hashes (handshake ?c) \<noteq> None" by (simp add: toy_defs set_io_def)
  have h2: "S2N_TLS12 \<le> actual_protocol_version ?c" by (simp add: toy_defs set_io_def)
  have h3: "s2n_stuffer_read_uint16 (io (handshake ?c)) = (Inr 0x0503, ?st)"
    by (simp add: toy_defs set_io_def s2n_stuffer_read_uint16_def bytes_u16_def)
  have h4: "(0x0503 :: 16 word) \<notin> iana_value ` set (accepted_sig_schemes ?c)"
    by (simp add: toy_defs set_io_def)
  show ?thesis
    using unaccepted_scheme_rejected [OF h1 h2 h3 h4, of toy_externals]
    by (simp add: toy_defs set_io_def)
qed

subsection \<open>C5: the signature length and the signature bytes\<close>

text \<open>
  C5. On the receive path, once the scheme is negotiated and the 2-byte big-endian
  signature length \<open>n\<close> is read, \<open>n\<close> is at most 65535. If fewer than \<open>n\<close> bytes
  remain, the call returns an error and leaves the connection as it was right after the
  length field: nothing beyond it is consumed. If \<open>n\<close> bytes remain, then whatever the
  call returns, the read cursor has moved by exactly \<open>n\<close> more, and the signature blob
  that the raw read obtained has exactly \<open>n\<close> bytes.
\<close>

theorem signature_length_exact:
  assumes "hashes (handshake c) \<noteq> None"
    and "(if actual_protocol_version c < S2N_TLS12 then s2n_choose_default_sig_scheme E c
          else s2n_get_and_validate_negotiated_signature_scheme c) = (Inr (), c1)"
    and "s2n_stuffer_read_uint16 (io (handshake c1)) = (Inr n, st)"
  shows "unat n \<le> 65535 \<and>
     (s2n_stuffer_data_available st < unat n \<longrightarrow>
        s2n_client_cert_verify_recv E (Some c) = (Inl NullError, Some (set_io c1 st))) \<and>
     (unat n \<le> s2n_stuffer_data_available st \<longrightarrow>
        (\<forall>r c'. s2n_client_cert_verify_recv E (Some c) = (r, Some c') \<longrightarrow>
           io (handshake c') = st\<lparr>read_cursor := read_cursor st + unat n\<rparr> \<and>
           s2n_stuffer_raw_read st (unat n) =
             (Some (take (unat n) (drop (read_cursor st) (blob st))), io (handshake c')) \<and>
           length (take (unat n) (drop (read_cursor st) (blob st))) = unat n))"
proof (intro conjI impI allI)
  have "unat n < 2 ^ 16" using unsigned_less [of n, where ?'a = nat] by simp
  then show "unat n \<le> 65535" by simp
next
  assume "s2n_stuffer_data_available st < unat n"
  moreover have "read_cursor st \<le> length (blob st)" using assms(3)
    by (auto simp: s2n_stuffer_read_uint16_def split: if_splits)
  ultimately have short: "\<not> read_cursor st + unat n \<le> length (blob st)"
    by (simp add: s2n_stuffer_data_available_def)
  show "s2n_client_cert_verify_recv E (Some c) = (Inl NullError, Some (set_io c1 st))"
    using assms(1,2) short
    unfolding s2n_client_cert_verify_recv_def
    by (auto simp: on_io_def assms(3) s2n_stuffer_raw_read_def set_io_def split: if_splits)
next
  fix r c'
  assume avail: "unat n \<le> s2n_stuffer_data_available st"
    and run: "s2n_client_cert_verify_recv E (Some c) = (r, Some c')"
  have rc: "read_cursor st \<le> length (blob st)" using assms(3)
    by (auto simp: s2n_stuffer_read_uint16_def split: if_splits)
  with avail have fits: "read_cursor st + unat n \<le> length (blob st)"
    by (simp add: s2n_stuffer_data_available_def)
  show "io (handshake c') = st\<lparr>read_cursor := read_cursor st + unat n\<rparr>"
    using run assms(1,2) fits
    unfolding s2n_client_cert_verify_recv_def
    by (auto simp: on_io_def assms(3) s2n_stuffer_raw_read_def set_io_def
         s2n_handshake_get_hash_state_def s2n_hash_copy_def set_hash_workspace_def get_hash_workspace_def
         s2n_pkey_verify_def s2n_conn_update_required_handshake_hashes_def POSIX_GUARD_def Let_def
         split: option.splits sum.splits prod.splits if_splits)
  then show "s2n_stuffer_raw_read st (unat n) =
             (Some (take (unat n) (drop (read_cursor st) (blob st))), io (handshake c'))"
    using fits by (simp add: s2n_stuffer_raw_read_def)
  show "length (take (unat n) (drop (read_cursor st) (blob st))) = unat n"
    using fits by simp
qed

text \<open>
  The witness: the server's message cut after three of the four signature bytes, where the
  declared length is 4, three bytes remain, and the call fails with the cursor right
  after the length field; and the whole message, where the call succeeds with the cursor
  four bytes further, at the end of the buffer.
\<close>

theorem signature_length_exact_witness:
  "s2n_client_cert_verify_recv toy_externals (Some (toy_server_with [4, 3, 0, 4, 9, 1, 2]))
     = (Inl NullError,
        Some (set_io (set_client_cert_sig_scheme (toy_server_with [4, 3, 0, 4, 9, 1, 2]) s2n_ecdsa_sha256)
                \<lparr>blob = [4, 3, 0, 4, 9, 1, 2], read_cursor = 4, max_size = 64\<rparr>)) \<and>
   fst (s2n_client_cert_verify_recv toy_externals (Some toy_server)) = Inr () \<and>
   map_option (io \<circ> handshake) (snd (s2n_client_cert_verify_recv toy_externals (Some toy_server)))
     = Some \<lparr>blob = [4, 3, 0, 4, 9, 1, 2, 3], read_cursor = 8, max_size = 64\<rparr>"
proof -
  let ?c = "toy_server_with [4, 3, 0, 4, 9, 1, 2]"
  let ?c1 = "set_client_cert_sig_scheme
               (set_io ?c \<lparr>blob = [4, 3, 0, 4, 9, 1, 2], read_cursor = 2, max_size = 64\<rparr>) s2n_ecdsa_sha256"
  let ?st = "\<lparr>blob = [4, 3, 0, 4, 9, 1, 2], read_cursor = 4, max_size = 64\<rparr> :: s2n_stuffer"
  have h1: "hashes (handshake ?c) \<noteq> None" by (simp add: toy_defs set_io_def)
  have h2: "(if actual_protocol_version ?c < S2N_TLS12 then s2n_choose_default_sig_scheme toy_externals ?c
          else s2n_get_and_validate_negotiated_signature_scheme ?c) = (Inr (), ?c1)"
    by (simp add: toy_defs conn_defs s2n_get_and_validate_negotiated_signature_scheme_def
          s2n_stuffer_read_uint16_def bytes_u16_def)
  have h3: "s2n_stuffer_read_uint16 (io (handshake ?c1)) = (Inr 4, ?st)"
    by (simp add: toy_defs conn_defs s2n_stuffer_read_uint16_def bytes_u16_def)
  have short: "s2n_stuffer_data_available ?st < unat (4 :: 16 word)"
    by (simp add: s2n_stuffer_data_available_def)
  have cut: "s2n_client_cert_verify_recv toy_externals (Some ?c)
     = (Inl NullError,
        Some (set_io (set_client_cert_sig_scheme ?c s2n_ecdsa_sha256) ?st))"
    using signature_length_exact [OF h1 h2 h3] short
    by (simp add: toy_defs conn_defs)
  let ?d1 = "set_client_cert_sig_scheme
               (set_io toy_server \<lparr>blob = [4, 3, 0, 4, 9, 1, 2, 3], read_cursor = 2, max_size = 64\<rparr>)
               s2n_ecdsa_sha256"
  let ?sd = "\<lparr>blob = [4, 3, 0, 4, 9, 1, 2, 3], read_cursor = 4, max_size = 64\<rparr> :: s2n_stuffer"
  obtain c' where run: "s2n_client_cert_verify_recv toy_externals (Some toy_server) = (Inr (), Some c')"
    by (simp add: toy_defs exec_defs)
  have g1: "hashes (handshake toy_server) \<noteq> None" by (simp add: toy_defs)
  have g2: "(if actual_protocol_version toy_server < S2N_TLS12
          then s2n_choose_default_sig_scheme toy_externals toy_server
          else s2n_get_and_validate_negotiated_signature_scheme toy_server) = (Inr (), ?d1)"
    by (simp add: toy_defs conn_defs s2n_get_and_validate_negotiated_signature_scheme_def
          s2n_stuffer_read_uint16_def bytes_u16_def)
  have g3: "s2n_stuffer_read_uint16 (io (handshake ?d1)) = (Inr 4, ?sd)"
    by (simp add: toy_defs conn_defs s2n_stuffer_read_uint16_def bytes_u16_def)
  have enough: "unat (4 :: 16 word) \<le> s2n_stuffer_data_available ?sd"
    by (simp add: s2n_stuffer_data_available_def)
  from signature_length_exact [OF g1 g2 g3] enough run
  have "io (handshake c') = ?sd\<lparr>read_cursor := read_cursor ?sd + unat (4 :: 16 word)\<rparr>"
    by blast
  then have "io (handshake c') = \<lparr>blob = [4, 3, 0, 4, 9, 1, 2, 3], read_cursor = 8, max_size = 64\<rparr>"
    by simp
  with cut show ?thesis by (simp add: run)
qed

subsection \<open>C7: re-invocation while the signing is pending or complete\<close>

text \<open>
  C7. A send step that starts an asynchronous signing operation leaves the operation
  pending and has submitted one signing request. Re-invoked while the operation is
  pending, the send step tells the caller to retry and returns the connection unchanged:
  no second request, no negotiation, no scheme-id write, no snapshot. The completion of a
  pending operation submits nothing. Re-invoked after completion, the send step succeeds
  and only discards the handle.
\<close>

theorem reinvocation_never_resigns:
  "(async_state (handshake c) = Pending alg d \<and> hashes (handshake c) \<noteq> None \<longrightarrow>
      s2n_client_cert_verify_send E (Some c) = (Inl AsyncPending, Some c)) \<and>
   (async_state (handshake c) = Completed \<and> hashes (handshake c) \<noteq> None \<longrightarrow>
      s2n_client_cert_verify_send E (Some c) = (Inr (), Some (set_async_state c NotStarted))) \<and>
   (async_state (handshake c) = NotStarted \<and>
    s2n_client_cert_verify_send E (Some c) = (Inl AsyncPending, Some c') \<longrightarrow>
      hashes (handshake c') \<noteq> None \<and>
      (\<exists>alg' d'. async_state (handshake c') = Pending alg' d') \<and>
      calls c' = calls c @ [CallSign]) \<and>
   (async_state (handshake c) = Pending alg d \<and>
    async_resume E c (s2n_client_cert_verify_send_complete E) = (Inr (), c') \<longrightarrow>
      async_state (handshake c') = Completed \<and>
      calls c' = calls c @ [CallMinimize] \<and>
      hashes (handshake c') = hashes (handshake c))"
proof (intro conjI impI; (elim conjE)?)
  assume "async_state (handshake c) = Pending alg d" and "hashes (handshake c) \<noteq> None"
  then show "s2n_client_cert_verify_send E (Some c) = (Inl AsyncPending, Some c)"
    unfolding s2n_client_cert_verify_send_def by (auto simp: S2N_ASYNC_PKEY_GUARD_def)
next
  assume "async_state (handshake c) = Completed" and "hashes (handshake c) \<noteq> None"
  then show "s2n_client_cert_verify_send E (Some c) = (Inr (), Some (set_async_state c NotStarted))"
    unfolding s2n_client_cert_verify_send_def by (auto simp: S2N_ASYNC_PKEY_GUARD_def)
next
  assume fresh: "async_state (handshake c) = NotStarted"
    and run: "s2n_client_cert_verify_send E (Some c) = (Inl AsyncPending, Some c')"
  from run obtain h where h: "hashes (handshake c) = Some h"
    by (cases "hashes (handshake c)") (auto simp: s2n_client_cert_verify_send_def)
  from run [unfolded send_exec [OF h fresh]]
  have "hashes (handshake c') \<noteq> None \<and>
      (\<exists>alg' d'. async_state (handshake c') = Pending alg' d') \<and>
      calls c' = calls c @ [CallSign]"
    using h
    by (auto simp: s2n_choose_default_sig_scheme_def S2N_ASYNC_PKEY_SIGN_def send_complete_exec
          s2n_conn_update_required_handshake_hashes_def conn_defs s2n_stuffer_write_uint16_def
          s2n_stuffer_write_def Let_def
        split: if_splits option.splits prod.splits sum.splits)
  then show "hashes (handshake c') \<noteq> None"
    and "\<exists>alg' d'. async_state (handshake c') = Pending alg' d'"
    and "calls c' = calls c @ [CallSign]" by blast+
next
  assume "async_state (handshake c) = Pending alg d"
    and "async_resume E c (s2n_client_cert_verify_send_complete E) = (Inr (), c')"
  then have "async_state (handshake c') = Completed \<and>
      calls c' = calls c @ [CallMinimize] \<and>
      hashes (handshake c') = hashes (handshake c)"
    unfolding async_resume_def send_complete_exec
    by (auto simp: conn_defs s2n_conn_update_required_handshake_hashes_def
        split: option.splits if_splits prod.splits sum.splits)
  then show "async_state (handshake c') = Completed"
    and "calls c' = calls c @ [CallMinimize]"
    and "hashes (handshake c') = hashes (handshake c)" by blast+
qed

text \<open>
  The witness is a whole run: the first send suspends, a re-invocation changes nothing, the
  backend completes, and the last re-invocation succeeds. One signing request in all.
\<close>

theorem reinvocation_never_resigns_witness:
  "s2n_client_cert_verify_send toy_externals (Some toy_async_client)
     = (Inl AsyncPending, Some toy_async_pending) \<and>
   calls toy_async_pending = calls toy_async_client @ [CallSign] \<and>
   s2n_client_cert_verify_send toy_externals (Some toy_async_pending)
     = (Inl AsyncPending, Some toy_async_pending) \<and>
   async_resume toy_externals toy_async_pending (s2n_client_cert_verify_send_complete toy_externals)
     = (Inr (), toy_async_completed) \<and>
   calls toy_async_completed = calls toy_async_pending @ [CallMinimize] \<and>
   s2n_client_cert_verify_send toy_externals (Some toy_async_completed)
     = (Inr (), Some (set_async_state toy_async_completed NotStarted)) \<and>
   calls (set_async_state toy_async_completed NotStarted) = [CallSign, CallMinimize]"
proof -
  have s1: "s2n_client_cert_verify_send toy_externals (Some toy_async_client)
     = (Inl AsyncPending, Some toy_async_pending)"
    by (simp add: toy_defs exec_defs)
  have s2: "async_resume toy_externals toy_async_pending (s2n_client_cert_verify_send_complete toy_externals)
     = (Inr (), toy_async_completed)"
    by (simp add: toy_defs exec_defs)
  have f: "async_state (handshake toy_async_client) = NotStarted" by (simp add: toy_defs)
  have p: "async_state (handshake toy_async_pending) = Pending S2N_SIGNATURE_ECDSA [1, 2, 3] \<and>
           hashes (handshake toy_async_pending) \<noteq> None"
    by (simp add: toy_defs)
  have q: "async_state (handshake toy_async_completed) = Completed \<and>
           hashes (handshake toy_async_completed) \<noteq> None"
    by (simp add: toy_defs)
  from reinvocation_never_resigns [of toy_async_client _ _ toy_externals toy_async_pending] f s1
  have r0: "calls toy_async_pending = calls toy_async_client @ [CallSign]" by blast
  from reinvocation_never_resigns
         [of toy_async_pending S2N_SIGNATURE_ECDSA "[1, 2, 3]" toy_externals toy_async_completed] p s2
  have r1: "s2n_client_cert_verify_send toy_externals (Some toy_async_pending)
     = (Inl AsyncPending, Some toy_async_pending)"
    and r3: "calls toy_async_completed = calls toy_async_pending @ [CallMinimize]" by blast+
  from reinvocation_never_resigns [of toy_async_completed _ _ toy_externals] q
  have r2: "s2n_client_cert_verify_send toy_externals (Some toy_async_completed)
     = (Inr (), Some (set_async_state toy_async_completed NotStarted))" by blast
  have "calls (set_async_state toy_async_completed NotStarted) = [CallSign, CallMinimize]"
    by (simp add: toy_defs set_async_state_def)
  with s1 s2 r0 r1 r2 r3 show ?thesis by simp
qed

subsection \<open>C1: what the send path writes, the receive path accepts\<close>

text \<open>
  C1. Let a client run the send path (the send step and its completion) from a fresh
  async state, with success. Let a server be a matching connection: same protocol
  version, same client key type, same running transcript hashes, a public key that
  verifies whatever the client's private key signs (signatures fitting the 16-bit length
  field), the client's scheme in its accepted set under its identifier (TLS 1.2 and
  later), and as unread input exactly the bytes the client appended to its buffer. Then
  the receive path on the server parses the whole message and verifies it: the read cursor
  ends at the end of the buffer, the scheme it has taken is the client's, and the log
  gains one successful verification followed by one minimization. The call returns
  success, unless the minimization that follows the verification fails, and then it
  returns the error of the minimization.
\<close>

theorem send_then_recv_verifies:
  assumes fresh: "async_state (handshake c) = NotStarted"
    and sent: "send_path E c = (Inr (), Some c')"
    and keys: "\<forall>alg d sig. pkey_sign E (our_private_key (handshake_params c)) alg d = Some sig \<longrightarrow>
                 pkey_verify E (client_public_key (handshake_params s)) alg d sig \<and> length sig < 65536"
    and version: "actual_protocol_version s = actual_protocol_version c"
    and keytype: "client_cert_pkey_type (handshake_params s) = client_cert_pkey_type (handshake_params c)"
    and accepted: "S2N_TLS12 \<le> actual_protocol_version c \<longrightarrow>
           find (\<lambda>x. iana_value x = iana_value (client_cert_sig_scheme (handshake_params c)))
             (accepted_sig_schemes s) = Some (client_cert_sig_scheme (handshake_params c))"
    and transcript: "map_option running (hashes (handshake s)) = map_option running (hashes (handshake c))"
    and wire: "drop (read_cursor (io (handshake s))) (blob (io (handshake s)))
                 = drop (length (blob (io (handshake c)))) (blob (io (handshake c')))"
  shows "\<exists>s'. s2n_client_cert_verify_recv E (Some s) =
                ((if minimize_fails E (actual_protocol_version s) (required_hash_algs (handshake s))
                  then Inl MinimizationError else Inr ()), Some s') \<and>
              calls s' = calls s @ [CallVerify True, CallMinimize] \<and>
              read_cursor (io (handshake s')) = length (blob (io (handshake s))) \<and>
              client_cert_sig_scheme (handshake_params s') = client_cert_sig_scheme (handshake_params c')"
proof -
  from send_path_success [OF fresh sent] obtain h hs sig sch where
    h: "hashes (handshake c) = Some h"
    and sch: "if actual_protocol_version c < S2N_TLS12
      then default_scheme_for E (actual_protocol_version c) (client_cert_pkey_type (handshake_params c)) = Some sch
      else sch = client_cert_sig_scheme (handshake_params c)"
    and sch': "client_cert_sig_scheme (handshake_params c') = sch"
    and hs: "running h (hash_alg sch) = Some hs"
    and sg: "pkey_sign E (our_private_key (handshake_params c)) (sig_alg sch) (fst (hash_digest E hs)) = Some sig"
    and out: "blob (io (handshake c')) = blob (io (handshake c))
        @ (if actual_protocol_version c < S2N_TLS12 then [] else u16_bytes (iana_value sch))
        @ u16_bytes (of_nat (length sig)) @ sig"
    by blast
  from keys sg have ok: "pkey_verify E (client_public_key (handshake_params s)) (sig_alg sch) (fst (hash_digest E hs)) sig"
    and len: "length sig < 65536" by blast+
  from transcript h obtain hh where hh: "hashes (handshake s) = Some hh" and run: "running hh = running h"
    by (cases "hashes (handshake s)") auto
  have w: "drop (read_cursor (io (handshake s))) (blob (io (handshake s)))
        = (if actual_protocol_version c < S2N_TLS12 then [] else u16_bytes (iana_value sch))
        @ u16_bytes (of_nat (length sig)) @ sig"
    using wire out by simp
  let ?k = "if actual_protocol_version c < S2N_TLS12 then 0 else 2 :: nat"
  let ?inb = "io (handshake s)"
  let ?sneg = "set_client_cert_sig_scheme (set_io s (?inb\<lparr>read_cursor := read_cursor ?inb + ?k\<rparr>)) sch"
  let ?n = "of_nat (length sig) :: 16 word"
  let ?st = "?inb\<lparr>read_cursor := read_cursor ?inb + ?k + 2\<rparr>"
  have n: "unat ?n = length sig" using len by (simp add: unat_of_nat)
  have neg: "(if actual_protocol_version s < S2N_TLS12 then s2n_choose_default_sig_scheme E s
             else s2n_get_and_validate_negotiated_signature_scheme s) = (Inr (), ?sneg)"
    and w1: "drop (read_cursor ?inb + ?k) (blob ?inb) = u16_bytes ?n @ sig"
  proof -
    show "(if actual_protocol_version s < S2N_TLS12 then s2n_choose_default_sig_scheme E s
             else s2n_get_and_validate_negotiated_signature_scheme s) = (Inr (), ?sneg)"
    proof (cases "actual_protocol_version c < S2N_TLS12")
      case True
      with sch show ?thesis
        by (simp add: s2n_choose_default_sig_scheme_def version keytype set_io_def)
    next
      case False
      then have eq: "sch = client_cert_sig_scheme (handshake_params c)" using sch by simp
      have w': "drop (read_cursor ?inb) (blob ?inb)
                  = u16_bytes (iana_value sch) @ (u16_bytes ?n @ sig)"
        using w False by simp
      have fnd: "find (\<lambda>x. iana_value x = iana_value sch) (accepted_sig_schemes s) = Some sch"
        using accepted False eq by simp
      show ?thesis
        using False
        by (simp add: s2n_get_and_validate_negotiated_signature_scheme_def on_io_def
              read_uint16_drop(1) [OF w'] set_io_def fnd version)
    qed
    show "drop (read_cursor ?inb + ?k) (blob ?inb) = u16_bytes ?n @ sig"
    proof (cases "actual_protocol_version c < S2N_TLS12")
      case True
      with w show ?thesis by simp
    next
      case False
      have w': "drop (read_cursor ?inb) (blob ?inb)
                  = u16_bytes (iana_value sch) @ (u16_bytes ?n @ sig)"
        using w False by simp
      from read_uint16_drop(2) [OF w'] False show ?thesis by simp
    qed
  qed
  have io1: "io (handshake ?sneg) = ?inb\<lparr>read_cursor := read_cursor ?inb + ?k\<rparr>"
    and sch1: "client_cert_sig_scheme (handshake_params ?sneg) = sch"
    by (simp_all add: set_client_cert_sig_scheme_def set_io_def)
  have w1': "drop (read_cursor (io (handshake ?sneg))) (blob (io (handshake ?sneg))) = u16_bytes ?n @ sig"
    using w1 by (simp add: io1)
  have rd: "s2n_stuffer_read_uint16 (io (handshake ?sneg)) = (Inr ?n, ?st)"
    using read_uint16_drop(1) [OF w1'] by (simp add: io1 add.assoc)
  have d2: "drop (read_cursor ?st) (blob ?st) = sig"
    using read_uint16_drop(2) [OF w1'] by (simp add: io1 add.assoc)
  have le: "read_cursor ?st \<le> length (blob ?st)"
    using rd by (auto simp: s2n_stuffer_read_uint16_def io1 split: if_splits)
  have "length (drop (read_cursor ?st) (blob ?st)) = length sig" by (simp only: d2)
  with le have end_: "read_cursor ?st + length sig = length (blob ?inb)"
    by simp
  have av: "unat ?n \<le> s2n_stuffer_data_available ?st"
    using end_ by (simp add: s2n_stuffer_data_available_def n)
  have hs1: "running hh (hash_alg (client_cert_sig_scheme (handshake_params ?sneg))) = Some hs"
    using hs run by (simp add: sch1)
  have sigb: "take (unat ?n) (drop (read_cursor ?st) (blob ?st)) = sig"
    by (simp only: d2 n) simp
  note ex = recv_exact [OF hh neg rd av hs1]
  have "s2n_client_cert_verify_recv E (Some s) =
          map_prod id Some (s2n_conn_update_required_handshake_hashes E
             ((set_hash_workspace (set_io ?sneg (?st\<lparr>read_cursor := read_cursor ?st + unat ?n\<rparr>))
                 (snd (hash_digest E hs)))\<lparr>calls := calls s @ [CallVerify True]\<rparr>))"
    unfolding ex sigb sch1 using ok by simp
  then show ?thesis
    using end_ sch'
    by (simp add: s2n_conn_update_required_handshake_hashes_def set_hash_workspace_def set_io_def
          set_client_cert_sig_scheme_def n)
qed

text \<open>
  The witness: the TLS 1.2 client signs with key 9, the server holds the bytes it wrote
  (\<open>04 03 00 04 09 01 02 03\<close>) and verifies with key 9: success, cursor at 8, scheme
  ECDSA-SHA256, one verification and one minimization.
\<close>

theorem send_then_recv_verifies_witness:
  "fst (send_path toy_externals toy_client) = Inr () \<and>
   map_option (blob \<circ> io \<circ> handshake) (snd (send_path toy_externals toy_client))
     = Some [4, 3, 0, 4, 9, 1, 2, 3] \<and>
   fst (s2n_client_cert_verify_recv toy_externals (Some toy_server)) = Inr () \<and>
   map_option calls (snd (s2n_client_cert_verify_recv toy_externals (Some toy_server)))
     = Some [CallVerify True, CallMinimize] \<and>
   map_option (read_cursor \<circ> io \<circ> handshake)
       (snd (s2n_client_cert_verify_recv toy_externals (Some toy_server))) = Some 8 \<and>
   map_option (client_cert_sig_scheme \<circ> handshake_params)
       (snd (s2n_client_cert_verify_recv toy_externals (Some toy_server))) = Some s2n_ecdsa_sha256"
proof -
  obtain c' where sent: "send_path toy_externals toy_client = (Inr (), Some c')"
    and out: "blob (io (handshake c')) = [4, 3, 0, 4, 9, 1, 2, 3]"
    and sc: "client_cert_sig_scheme (handshake_params c') = s2n_ecdsa_sha256"
    by (simp add: toy_defs exec_defs)
  have fresh: "async_state (handshake toy_client) = NotStarted" by (simp add: toy_defs)
  have keys: "\<forall>alg d sig. pkey_sign toy_externals (our_private_key (handshake_params toy_client)) alg d = Some sig \<longrightarrow>
                 pkey_verify toy_externals (client_public_key (handshake_params toy_server)) alg d sig \<and>
                 length sig < 65536"
    by (auto simp: toy_defs)
  have version: "actual_protocol_version toy_server = actual_protocol_version toy_client"
    by (simp add: toy_defs)
  have keytype: "client_cert_pkey_type (handshake_params toy_server)
                   = client_cert_pkey_type (handshake_params toy_client)"
    by (simp add: toy_defs)
  have accepted: "S2N_TLS12 \<le> actual_protocol_version toy_client \<longrightarrow>
           find (\<lambda>x. iana_value x = iana_value (client_cert_sig_scheme (handshake_params toy_client)))
             (accepted_sig_schemes toy_server) = Some (client_cert_sig_scheme (handshake_params toy_client))"
    by (simp add: toy_defs)
  have transcript: "map_option running (hashes (handshake toy_server))
                      = map_option running (hashes (handshake toy_client))"
    by (simp add: toy_defs)
  have wire: "drop (read_cursor (io (handshake toy_server))) (blob (io (handshake toy_server)))
                 = drop (length (blob (io (handshake toy_client)))) (blob (io (handshake c')))"
    by (simp add: out) (simp add: toy_defs)
  have nofail: "\<not> minimize_fails toy_externals (actual_protocol_version toy_server)
                    (required_hash_algs (handshake toy_server))"
    and len: "length (blob (io (handshake toy_server))) = 8"
    by (simp_all add: toy_defs)
  from send_then_recv_verifies [OF fresh sent keys version keytype accepted transcript wire]
  obtain s' where "s2n_client_cert_verify_recv toy_externals (Some toy_server) = (Inr (), Some s')"
    and "calls s' = calls toy_server @ [CallVerify True, CallMinimize]"
    and "read_cursor (io (handshake s')) = 8"
    and "client_cert_sig_scheme (handshake_params s') = s2n_ecdsa_sha256"
    using nofail len sc by auto
  moreover have "calls toy_server = []" by (simp add: toy_defs)
  ultimately show ?thesis by (simp add: sent out)
qed

subsection \<open>C2: the running transcript hash is left alone\<close>

text \<open>
  The verification primitive modifies the hash state it is handed. Handed the running
  SHA-256 state of the server, it would leave that state changed.
\<close>

lemma digest_through_running_pointer:
  "hash_at toy_server (RunningHash S2N_HASH_SHA256) = [1, 2, 3] \<and>
   hash_at (snd (s2n_pkey_verify toy_externals toy_server [9] S2N_SIGNATURE_ECDSA
                   (RunningHash S2N_HASH_SHA256) [9, 1, 2, 3]))
           (RunningHash S2N_HASH_SHA256) = [1, 2, 3, 255]"
  by (simp add: toy_defs s2n_pkey_verify_def hash_at_def set_hash_at_def)

text \<open>
  C2. Whatever a receive call, a send call or the completion of a pending signing
  returns, the running transcript hash states of the connection are afterwards what they
  were before, for every algorithm and so for the algorithm of the chosen scheme: lines 60
  and 88 hand the workspace to the digest computation, not the running state.
  The digest computation is applied to the copy. A receive call that gets as far as the
  verification, whatever it then returns, leaves in the workspace what the digest-read
  leaves of the snapshot of the running state, and the running state of the scheme's
  algorithm is still the state the snapshot was taken of. The same holds of a send call
  from a fresh async state that gets as far as the signing, whatever it then returns; when
  the signing is asynchronous the workspace holds the snapshot as copied. The minimization
  that follows a successful verification or signing prunes the required algorithms; what
  the connection discards later on the strength of it is outside these calls.
\<close>

theorem running_hash_unchanged:
  "(s2n_client_cert_verify_recv E (Some c) = (r, Some c') \<longrightarrow>
      map_option running (hashes (handshake c')) = map_option running (hashes (handshake c))) \<and>
   (s2n_client_cert_verify_send E (Some c) = (r, Some c') \<longrightarrow>
      map_option running (hashes (handshake c')) = map_option running (hashes (handshake c))) \<and>
   (async_resume E c (s2n_client_cert_verify_send_complete E) = (r, c') \<longrightarrow>
      map_option running (hashes (handshake c')) = map_option running (hashes (handshake c))) \<and>
   (hashes (handshake c) = Some h \<and>
    (if actual_protocol_version c < S2N_TLS12 then s2n_choose_default_sig_scheme E c
     else s2n_get_and_validate_negotiated_signature_scheme c) = (Inr (), c1) \<and>
    s2n_stuffer_read_uint16 (io (handshake c1)) = (Inr n, st) \<and>
    unat n \<le> s2n_stuffer_data_available st \<and>
    running h (hash_alg (client_cert_sig_scheme (handshake_params c1))) = Some hs \<and>
    s2n_client_cert_verify_recv E (Some c) = (r, Some c') \<longrightarrow>
      get_hash_workspace c' = snd (hash_digest E hs) \<and>
      hash_at c' (RunningHash (hash_alg (client_cert_sig_scheme (handshake_params c1)))) = hs) \<and>
   (hashes (handshake c) = Some h \<and> async_state (handshake c) = NotStarted \<and>
    (if actual_protocol_version c < S2N_TLS12
     then s2n_choose_default_sig_scheme E c
     else on_io (\<lambda>st. s2n_stuffer_write_uint16 st
                    (iana_value (client_cert_sig_scheme (handshake_params c)))) c) = (Inr (), c1) \<and>
    running h (hash_alg (client_cert_sig_scheme (handshake_params c1))) = Some hs \<and>
    s2n_client_cert_verify_send E (Some c) = (r, Some c') \<longrightarrow>
      get_hash_workspace c' = (if async_pkey_cb c then hs else snd (hash_digest E hs)) \<and>
      hash_at c' (RunningHash (hash_alg (client_cert_sig_scheme (handshake_params c1)))) = hs)"
proof (intro conjI impI; (elim conjE)?)
  assume "s2n_client_cert_verify_recv E (Some c) = (r, Some c')"
  then show "map_option running (hashes (handshake c')) = map_option running (hashes (handshake c))"
    unfolding s2n_client_cert_verify_recv_def
    by (auto simp: conn_defs helper_defs POSIX_GUARD_def Let_def option.map_comp comp_def
        split: option.splits sum.splits prod.splits if_splits)
next
  assume run: "s2n_client_cert_verify_send E (Some c) = (r, Some c')"
  show "map_option running (hashes (handshake c')) = map_option running (hashes (handshake c))"
  proof (cases "hashes (handshake c)")
    case None
    with run show ?thesis by (auto simp: s2n_client_cert_verify_send_def)
  next
    case (Some h)
    show ?thesis
    proof (cases "async_state (handshake c) = NotStarted")
      case False
      with run Some show ?thesis
        by (auto simp: s2n_client_cert_verify_send_def S2N_ASYNC_PKEY_GUARD_def set_async_state_def
            split: s2n_async_state.splits)
    next
      case True
      from run [unfolded send_exec [OF Some True]] Some show ?thesis
        by (auto simp: s2n_choose_default_sig_scheme_def S2N_ASYNC_PKEY_SIGN_def send_complete_exec
              s2n_conn_update_required_handshake_hashes_def conn_defs s2n_stuffer_write_uint16_def
              s2n_stuffer_write_def Let_def
            split: if_splits option.splits prod.splits sum.splits)
    qed
  qed
next
  assume "async_resume E c (s2n_client_cert_verify_send_complete E) = (r, c')"
  then show "map_option running (hashes (handshake c')) = map_option running (hashes (handshake c))"
    unfolding async_resume_def send_complete_exec
    by (auto simp: conn_defs s2n_conn_update_required_handshake_hashes_def
        split: option.splits if_splits prod.splits sum.splits s2n_async_state.splits)
next
  assume h: "hashes (handshake c) = Some h"
    and neg: "(if actual_protocol_version c < S2N_TLS12 then s2n_choose_default_sig_scheme E c
     else s2n_get_and_validate_negotiated_signature_scheme c) = (Inr (), c1)"
    and rd: "s2n_stuffer_read_uint16 (io (handshake c1)) = (Inr n, st)"
    and av: "unat n \<le> s2n_stuffer_data_available st"
    and hs: "running h (hash_alg (client_cert_sig_scheme (handshake_params c1))) = Some hs"
    and run: "s2n_client_cert_verify_recv E (Some c) = (r, Some c')"
  note keep = negotiation_keeps [OF neg]
  from run [unfolded recv_exact [OF h neg rd av hs]] keep(1) h hs
  have "get_hash_workspace c' = snd (hash_digest E hs) \<and>
      hash_at c' (RunningHash (hash_alg (client_cert_sig_scheme (handshake_params c1)))) = hs"
    by (auto simp: s2n_conn_update_required_handshake_hashes_def set_hash_workspace_def set_io_def
          get_hash_workspace_def hash_at_def
        split: if_splits)
  then show "get_hash_workspace c' = snd (hash_digest E hs)"
    and "hash_at c' (RunningHash (hash_alg (client_cert_sig_scheme (handshake_params c1)))) = hs"
    by blast+
next
  assume h: "hashes (handshake c) = Some h"
    and fresh: "async_state (handshake c) = NotStarted"
    and neg: "(if actual_protocol_version c < S2N_TLS12
     then s2n_choose_default_sig_scheme E c
     else on_io (\<lambda>st. s2n_stuffer_write_uint16 st
                    (iana_value (client_cert_sig_scheme (handshake_params c)))) c) = (Inr (), c1)"
    and hs: "running h (hash_alg (client_cert_sig_scheme (handshake_params c1))) = Some hs"
    and run: "s2n_client_cert_verify_send E (Some c) = (r, Some c')"
  note keep = write_id_keeps [OF neg]
  from run [unfolded send_exact [OF h fresh neg hs]] keep(1) h hs
  have "get_hash_workspace c' = (if async_pkey_cb c then hs else snd (hash_digest E hs)) \<and>
      hash_at c' (RunningHash (hash_alg (client_cert_sig_scheme (handshake_params c1)))) = hs"
    by (auto simp: send_complete_exec s2n_conn_update_required_handshake_hashes_def
          set_hash_workspace_def set_io_def set_async_state_def get_hash_workspace_def hash_at_def
        split: if_splits option.splits)
  then show "get_hash_workspace c' = (if async_pkey_cb c then hs else snd (hash_digest E hs))"
    and "hash_at c' (RunningHash (hash_alg (client_cert_sig_scheme (handshake_params c1)))) = hs"
    by blast+
qed

text \<open>
  The witness: the server verifies the client's message, and the client signs. The running
  SHA-256 state is still \<open>01 02 03\<close> on both; the workspace of both holds the copy after
  the digest-read, \<open>01 02 03 ff\<close>.
\<close>

theorem running_hash_unchanged_witness:
  "fst (s2n_client_cert_verify_recv toy_externals (Some toy_server)) = Inr () \<and>
   map_option (map_option running \<circ> hashes \<circ> handshake)
       (snd (s2n_client_cert_verify_recv toy_externals (Some toy_server)))
     = Some (map_option running (hashes (handshake toy_server))) \<and>
   hash_at toy_server (RunningHash S2N_HASH_SHA256) = [1, 2, 3] \<and>
   map_option get_hash_workspace (snd (s2n_client_cert_verify_recv toy_externals (Some toy_server)))
     = Some [1, 2, 3, 255] \<and>
   fst (s2n_client_cert_verify_send toy_externals (Some toy_client)) = Inr () \<and>
   map_option (map_option running \<circ> hashes \<circ> handshake)
       (snd (s2n_client_cert_verify_send toy_externals (Some toy_client)))
     = Some (map_option running (hashes (handshake toy_client))) \<and>
   map_option get_hash_workspace (snd (s2n_client_cert_verify_send toy_externals (Some toy_client)))
     = Some [1, 2, 3, 255]"
proof -
  obtain c' where run: "s2n_client_cert_verify_recv toy_externals (Some toy_server) = (Inr (), Some c')"
    by (simp add: toy_defs exec_defs)
  obtain d' where snd: "s2n_client_cert_verify_send toy_externals (Some toy_client) = (Inr (), Some d')"
    by (simp add: toy_defs exec_defs)
  have rh: "hashes (handshake toy_server) = Some toy_hashes \<and>
    (if actual_protocol_version toy_server < S2N_TLS12
     then s2n_choose_default_sig_scheme toy_externals toy_server
     else s2n_get_and_validate_negotiated_signature_scheme toy_server)
      = (Inr (), set_client_cert_sig_scheme
                   (set_io toy_server \<lparr>blob = [4, 3, 0, 4, 9, 1, 2, 3], read_cursor = 2, max_size = 64\<rparr>)
                   s2n_ecdsa_sha256) \<and>
    s2n_stuffer_read_uint16 (io (handshake (set_client_cert_sig_scheme
                   (set_io toy_server \<lparr>blob = [4, 3, 0, 4, 9, 1, 2, 3], read_cursor = 2, max_size = 64\<rparr>)
                   s2n_ecdsa_sha256)))
      = (Inr 4, \<lparr>blob = [4, 3, 0, 4, 9, 1, 2, 3], read_cursor = 4, max_size = 64\<rparr>) \<and>
    unat (4 :: 16 word)
      \<le> s2n_stuffer_data_available \<lparr>blob = [4, 3, 0, 4, 9, 1, 2, 3], read_cursor = 4, max_size = 64\<rparr> \<and>
    running toy_hashes (hash_alg (client_cert_sig_scheme (handshake_params (set_client_cert_sig_scheme
                   (set_io toy_server \<lparr>blob = [4, 3, 0, 4, 9, 1, 2, 3], read_cursor = 2, max_size = 64\<rparr>)
                   s2n_ecdsa_sha256))))
      = Some [1, 2, 3]"
    by (simp add: toy_defs conn_defs s2n_get_and_validate_negotiated_signature_scheme_def
          s2n_stuffer_read_uint16_def bytes_u16_def s2n_stuffer_data_available_def)
  have sh: "hashes (handshake toy_client) = Some toy_hashes \<and>
    async_state (handshake toy_client) = NotStarted \<and>
    (if actual_protocol_version toy_client < S2N_TLS12
     then s2n_choose_default_sig_scheme toy_externals toy_client
     else on_io (\<lambda>st. s2n_stuffer_write_uint16 st
                    (iana_value (client_cert_sig_scheme (handshake_params toy_client)))) toy_client)
      = (Inr (), set_io toy_client \<lparr>blob = [4, 3], read_cursor = 0, max_size = 64\<rparr>) \<and>
    running toy_hashes (hash_alg (client_cert_sig_scheme (handshake_params
        (set_io toy_client \<lparr>blob = [4, 3], read_cursor = 0, max_size = 64\<rparr>)))) = Some [1, 2, 3]"
    by (simp add: toy_defs conn_defs s2n_stuffer_write_uint16_def s2n_stuffer_write_def u16_bytes_def)
  note inst = running_hash_unchanged [where E = toy_externals and h = toy_hashes and hs = "[1, 2, 3]"]
  from inst [of toy_server "Inr ()" c'] run
  have a: "map_option running (hashes (handshake c')) = map_option running (hashes (handshake toy_server))"
    by blast
  from inst [of toy_server "Inr ()" c' _ 4] rh run
  have a2: "get_hash_workspace c' = snd (hash_digest toy_externals [1, 2, 3])"
    by blast
  from inst [of toy_client "Inr ()" d'] snd
  have b: "map_option running (hashes (handshake d')) = map_option running (hashes (handshake toy_client))"
    by blast
  from inst [of toy_client "Inr ()" d'] sh snd
  have b2: "get_hash_workspace d' = (if async_pkey_cb toy_client then [1, 2, 3]
                                     else snd (hash_digest toy_externals [1, 2, 3]))"
    by blast
  have "hash_at toy_server (RunningHash S2N_HASH_SHA256) = [1, 2, 3]"
    by (simp add: toy_defs hash_at_def)
  with a a2 b b2 show ?thesis
    by (simp add: run snd) (simp add: toy_defs)
qed

subsection \<open>C3: minimization runs exactly when the verification succeeds\<close>

text \<open>
  C3. Take a receive call that gets as far as the verification: the scheme is negotiated,
  the length \<open>n\<close> is read, \<open>n\<close> signature bytes are there and the running state of
  the scheme's hash algorithm exists. Its result is decided by the verification of the
  \<open>n\<close> bytes from the wire against the digest of the snapshot, with the peer's public
  key and the scheme's signature algorithm. If that verification fails, the call returns
  \<open>VerificationFailure\<close>, the log shows the failed verification and no minimization,
  and the required hash algorithms are what they were. If it succeeds, the call is
  hash-algorithm minimization applied to the verified connection, with the result of the
  minimization. For every receive call, the log gains either nothing, or one failed
  verification, or one successful verification followed by one minimization: minimization
  runs exactly when the verification succeeds.
\<close>

theorem minimize_iff_verified:
  "(s2n_client_cert_verify_recv E (Some c) = (r, Some c') \<longrightarrow>
      (calls c' = calls c \<and> r \<noteq> Inr () \<and> r \<noteq> Inl VerificationFailure) \<or>
      (calls c' = calls c @ [CallVerify False] \<and> r = Inl VerificationFailure) \<or>
      (calls c' = calls c @ [CallVerify True, CallMinimize] \<and>
       (r = Inr () \<or> r = Inl MinimizationError))) \<and>
   (hashes (handshake c) = Some h \<and>
    (if actual_protocol_version c < S2N_TLS12 then s2n_choose_default_sig_scheme E c
     else s2n_get_and_validate_negotiated_signature_scheme c) = (Inr (), c1) \<and>
    s2n_stuffer_read_uint16 (io (handshake c1)) = (Inr n, st) \<and>
    unat n \<le> s2n_stuffer_data_available st \<and>
    running h (hash_alg (client_cert_sig_scheme (handshake_params c1))) = Some hs \<longrightarrow>
      (if pkey_verify E (client_public_key (handshake_params c))
            (sig_alg (client_cert_sig_scheme (handshake_params c1)))
            (fst (hash_digest E hs)) (take (unat n) (drop (read_cursor st) (blob st)))
       then s2n_client_cert_verify_recv E (Some c) =
              map_prod id Some (s2n_conn_update_required_handshake_hashes E
                ((set_hash_workspace (set_io c1 (st\<lparr>read_cursor := read_cursor st + unat n\<rparr>))
                    (snd (hash_digest E hs)))\<lparr>calls := calls c @ [CallVerify True]\<rparr>)) \<and>
            map_option calls (snd (s2n_client_cert_verify_recv E (Some c)))
              = Some (calls c @ [CallVerify True, CallMinimize])
       else s2n_client_cert_verify_recv E (Some c) =
              (Inl VerificationFailure,
               Some ((set_hash_workspace (set_io c1 (st\<lparr>read_cursor := read_cursor st + unat n\<rparr>))
                        (snd (hash_digest E hs)))\<lparr>calls := calls c @ [CallVerify False]\<rparr>)) \<and>
            map_option (required_hash_algs \<circ> handshake) (snd (s2n_client_cert_verify_recv E (Some c)))
              = Some (required_hash_algs (handshake c))))"
proof (intro conjI impI; (elim conjE)?)
  assume "s2n_client_cert_verify_recv E (Some c) = (r, Some c')"
  then show "(calls c' = calls c \<and> r \<noteq> Inr () \<and> r \<noteq> Inl VerificationFailure) \<or>
      (calls c' = calls c @ [CallVerify False] \<and> r = Inl VerificationFailure) \<or>
      (calls c' = calls c @ [CallVerify True, CallMinimize] \<and>
       (r = Inr () \<or> r = Inl MinimizationError))"
    unfolding s2n_client_cert_verify_recv_def
    by (auto simp: conn_defs helper_defs POSIX_GUARD_def Let_def
        split: option.splits sum.splits prod.splits if_splits)
next
  assume h: "hashes (handshake c) = Some h"
    and neg: "(if actual_protocol_version c < S2N_TLS12 then s2n_choose_default_sig_scheme E c
     else s2n_get_and_validate_negotiated_signature_scheme c) = (Inr (), c1)"
    and rd: "s2n_stuffer_read_uint16 (io (handshake c1)) = (Inr n, st)"
    and av: "unat n \<le> s2n_stuffer_data_available st"
    and hs: "running h (hash_alg (client_cert_sig_scheme (handshake_params c1))) = Some hs"
  note ex = recv_exact [OF h neg rd av hs]
  note keep = negotiation_keeps [OF neg]
  show "if pkey_verify E (client_public_key (handshake_params c))
            (sig_alg (client_cert_sig_scheme (handshake_params c1)))
            (fst (hash_digest E hs)) (take (unat n) (drop (read_cursor st) (blob st)))
       then s2n_client_cert_verify_recv E (Some c) =
              map_prod id Some (s2n_conn_update_required_handshake_hashes E
                ((set_hash_workspace (set_io c1 (st\<lparr>read_cursor := read_cursor st + unat n\<rparr>))
                    (snd (hash_digest E hs)))\<lparr>calls := calls c @ [CallVerify True]\<rparr>)) \<and>
            map_option calls (snd (s2n_client_cert_verify_recv E (Some c)))
              = Some (calls c @ [CallVerify True, CallMinimize])
       else s2n_client_cert_verify_recv E (Some c) =
              (Inl VerificationFailure,
               Some ((set_hash_workspace (set_io c1 (st\<lparr>read_cursor := read_cursor st + unat n\<rparr>))
                        (snd (hash_digest E hs)))\<lparr>calls := calls c @ [CallVerify False]\<rparr>)) \<and>
            map_option (required_hash_algs \<circ> handshake) (snd (s2n_client_cert_verify_recv E (Some c)))
              = Some (required_hash_algs (handshake c))"
    by (simp add: ex keep(5) s2n_conn_update_required_handshake_hashes_def
          set_hash_workspace_def set_io_def)
qed

text \<open>
  The witness: the server's message with the last signature byte flipped. Key 9 does not
  verify \<open>09 01 02 02\<close> against the digest \<open>01 02 03\<close>; the call returns
  \<open>VerificationFailure\<close> and no minimization follows. On the message as sent the same
  key verifies \<open>09 01 02 03\<close> and the minimization follows.
\<close>

theorem minimize_iff_verified_witness:
  "\<not> pkey_verify toy_externals [9] S2N_SIGNATURE_ECDSA [1, 2, 3] [9, 1, 2, 2] \<and>
   fst (s2n_client_cert_verify_recv toy_externals (Some (toy_server_with [4, 3, 0, 4, 9, 1, 2, 2])))
     = Inl VerificationFailure \<and>
   map_option calls (snd (s2n_client_cert_verify_recv toy_externals
                            (Some (toy_server_with [4, 3, 0, 4, 9, 1, 2, 2]))))
     = Some [CallVerify False] \<and>
   map_option (required_hash_algs \<circ> handshake)
       (snd (s2n_client_cert_verify_recv toy_externals (Some (toy_server_with [4, 3, 0, 4, 9, 1, 2, 2]))))
     = Some [S2N_HASH_SHA1, S2N_HASH_SHA256] \<and>
   pkey_verify toy_externals [9] S2N_SIGNATURE_ECDSA [1, 2, 3] [9, 1, 2, 3] \<and>
   fst (s2n_client_cert_verify_recv toy_externals (Some toy_server)) = Inr () \<and>
   map_option calls (snd (s2n_client_cert_verify_recv toy_externals (Some toy_server)))
     = Some [CallVerify True, CallMinimize]"
proof -
  let ?bad = "[4, 3, 0, 4, 9, 1, 2, 2] :: byte list"
  let ?good = "[4, 3, 0, 4, 9, 1, 2, 3] :: byte list"
  have hyps: "hashes (handshake (toy_server_with bs)) = Some toy_hashes \<and>
    (if actual_protocol_version (toy_server_with bs) < S2N_TLS12
     then s2n_choose_default_sig_scheme toy_externals (toy_server_with bs)
     else s2n_get_and_validate_negotiated_signature_scheme (toy_server_with bs))
      = (Inr (), set_client_cert_sig_scheme
                   (set_io toy_server \<lparr>blob = bs, read_cursor = 2, max_size = 64\<rparr>) s2n_ecdsa_sha256) \<and>
    s2n_stuffer_read_uint16 (io (handshake (set_client_cert_sig_scheme
                   (set_io toy_server \<lparr>blob = bs, read_cursor = 2, max_size = 64\<rparr>) s2n_ecdsa_sha256)))
      = (Inr 4, \<lparr>blob = bs, read_cursor = 4, max_size = 64\<rparr>) \<and>
    unat (4 :: 16 word) \<le> s2n_stuffer_data_available \<lparr>blob = bs, read_cursor = 4, max_size = 64\<rparr> \<and>
    running toy_hashes (hash_alg (client_cert_sig_scheme (handshake_params (set_client_cert_sig_scheme
                   (set_io toy_server \<lparr>blob = bs, read_cursor = 2, max_size = 64\<rparr>) s2n_ecdsa_sha256))))
      = Some [1, 2, 3]"
    if "bs = ?bad \<or> bs = ?good" for bs
    using that
    by (auto simp: toy_defs conn_defs s2n_get_and_validate_negotiated_signature_scheme_def
          s2n_stuffer_read_uint16_def bytes_u16_def s2n_stuffer_data_available_def)
  have no: "\<not> pkey_verify toy_externals [9] S2N_SIGNATURE_ECDSA [1, 2, 3] [9, 1, 2, 2]"
    and yes: "pkey_verify toy_externals [9] S2N_SIGNATURE_ECDSA [1, 2, 3] [9, 1, 2, 3]"
    by (simp_all add: toy_defs)
  have srv: "toy_server_with ?good = toy_server" by (simp add: toy_defs set_io_def)
  from minimize_iff_verified [THEN conjunct2, rule_format, OF hyps [of ?bad]]
  have bad: "fst (s2n_client_cert_verify_recv toy_externals (Some (toy_server_with ?bad)))
     = Inl VerificationFailure \<and>
   map_option calls (snd (s2n_client_cert_verify_recv toy_externals (Some (toy_server_with ?bad))))
     = Some [CallVerify False] \<and>
   map_option (required_hash_algs \<circ> handshake)
       (snd (s2n_client_cert_verify_recv toy_externals (Some (toy_server_with ?bad))))
     = Some [S2N_HASH_SHA1, S2N_HASH_SHA256]"
    by (simp add: toy_defs conn_defs)
  from minimize_iff_verified [THEN conjunct2, rule_format, OF hyps [of ?good]]
  have good: "fst (s2n_client_cert_verify_recv toy_externals (Some toy_server)) = Inr () \<and>
   map_option calls (snd (s2n_client_cert_verify_recv toy_externals (Some toy_server)))
     = Some [CallVerify True, CallMinimize]"
    by (simp add: srv) (simp add: toy_defs conn_defs s2n_conn_update_required_handshake_hashes_def)
  from no yes bad good show ?thesis by simp
qed

subsection \<open>C6: negotiation by protocol version\<close>

text \<open>
  C6. Below TLS 1.2 both paths take the default scheme given by version and key type and
  touch no scheme bytes: the receive path reads the signature length at the very position
  where it found the cursor, and what the send path appends starts with the signature
  length (nothing is appended while the signing is pending). With no default, both fail
  with a negotiation error and change nothing. From TLS 1.2 on, a successful receive has
  read a 2-byte identifier that names an accepted scheme, and the length after it; the
  send path keeps the scheme of the connection and, when two bytes fit, what it appends
  starts with the 2-byte identifier of that scheme.
\<close>

theorem negotiation_by_version:
  assumes "hashes (handshake c) \<noteq> None"
  shows
  "(actual_protocol_version c < S2N_TLS12 \<longrightarrow>
     (\<forall>r c'. s2n_client_cert_verify_recv E (Some c) = (r, Some c') \<longrightarrow>
        (case default_scheme_for E (actual_protocol_version c) (client_cert_pkey_type (handshake_params c)) of
           None \<Rightarrow> r = Inl NegotiationError \<and> c' = c
         | Some d \<Rightarrow> client_cert_sig_scheme (handshake_params c') = d) \<and>
        (r = Inr () \<longrightarrow> read_cursor (io (handshake c')) = read_cursor (io (handshake c)) + 2 +
            unat (bytes_u16 (blob (io (handshake c)) ! read_cursor (io (handshake c)))
                            (blob (io (handshake c)) ! (read_cursor (io (handshake c)) + 1))))) \<and>
     (\<forall>r c'. async_state (handshake c) = NotStarted \<and>
             s2n_client_cert_verify_send E (Some c) = (r, Some c') \<longrightarrow>
        (case default_scheme_for E (actual_protocol_version c) (client_cert_pkey_type (handshake_params c)) of
           None \<Rightarrow> r = Inl NegotiationError \<and> c' = c
         | Some d \<Rightarrow> client_cert_sig_scheme (handshake_params c') = d) \<and>
        (r = Inr () \<longrightarrow> (\<exists>sig. blob (io (handshake c')) =
                             blob (io (handshake c)) @ u16_bytes (of_nat (length sig)) @ sig)) \<and>
        (r = Inl AsyncPending \<longrightarrow> blob (io (handshake c')) = blob (io (handshake c))))) \<and>
   (S2N_TLS12 \<le> actual_protocol_version c \<longrightarrow>
     (\<forall>c'. s2n_client_cert_verify_recv E (Some c) = (Inr (), Some c') \<longrightarrow>
        iana_value (client_cert_sig_scheme (handshake_params c'))
           = bytes_u16 (blob (io (handshake c)) ! read_cursor (io (handshake c)))
                       (blob (io (handshake c)) ! (read_cursor (io (handshake c)) + 1)) \<and>
        client_cert_sig_scheme (handshake_params c') \<in> set (accepted_sig_schemes c) \<and>
        read_cursor (io (handshake c')) = read_cursor (io (handshake c)) + 4 +
            unat (bytes_u16 (blob (io (handshake c)) ! (read_cursor (io (handshake c)) + 2))
                            (blob (io (handshake c)) ! (read_cursor (io (handshake c)) + 3)))) \<and>
     (\<forall>r c'. async_state (handshake c) = NotStarted \<and>
             s2n_client_cert_verify_send E (Some c) = (r, Some c') \<longrightarrow>
        client_cert_sig_scheme (handshake_params c') = client_cert_sig_scheme (handshake_params c) \<and>
        (if length (blob (io (handshake c))) + 2 \<le> max_size (io (handshake c))
         then \<exists>rest. blob (io (handshake c')) = blob (io (handshake c))
                         @ u16_bytes (iana_value (client_cert_sig_scheme (handshake_params c))) @ rest
         else r = Inl BufferFullError \<and> c' = c) \<and>
        (r = Inr () \<longrightarrow> (\<exists>sig. blob (io (handshake c')) = blob (io (handshake c))
                         @ u16_bytes (iana_value (client_cert_sig_scheme (handshake_params c)))
                         @ u16_bytes (of_nat (length sig)) @ sig)) \<and>
        (r = Inl AsyncPending \<longrightarrow> blob (io (handshake c')) = blob (io (handshake c))
                         @ u16_bytes (iana_value (client_cert_sig_scheme (handshake_params c))))))"
proof (intro conjI impI allI; (elim conjE)?)
  fix r c'
  assume "actual_protocol_version c < S2N_TLS12"
    and "s2n_client_cert_verify_recv E (Some c) = (r, Some c')"
  from recv_legacy [OF assms this]
  show "case default_scheme_for E (actual_protocol_version c) (client_cert_pkey_type (handshake_params c)) of
           None \<Rightarrow> r = Inl NegotiationError \<and> c' = c
         | Some d \<Rightarrow> client_cert_sig_scheme (handshake_params c') = d"
    and "r = Inr () \<Longrightarrow> read_cursor (io (handshake c')) = read_cursor (io (handshake c)) + 2 +
            unat (bytes_u16 (blob (io (handshake c)) ! read_cursor (io (handshake c)))
                            (blob (io (handshake c)) ! (read_cursor (io (handshake c)) + 1)))"
    by blast+
next
  fix r c'
  assume "actual_protocol_version c < S2N_TLS12" and "async_state (handshake c) = NotStarted"
    and "s2n_client_cert_verify_send E (Some c) = (r, Some c')"
  from send_legacy [OF assms this(2) this(1) this(3)]
  show "case default_scheme_for E (actual_protocol_version c) (client_cert_pkey_type (handshake_params c)) of
           None \<Rightarrow> r = Inl NegotiationError \<and> c' = c
         | Some d \<Rightarrow> client_cert_sig_scheme (handshake_params c') = d"
    and "r = Inr () \<Longrightarrow> \<exists>sig. blob (io (handshake c')) =
                             blob (io (handshake c)) @ u16_bytes (of_nat (length sig)) @ sig"
    and "r = Inl AsyncPending \<Longrightarrow> blob (io (handshake c')) = blob (io (handshake c))"
    by blast+
next
  fix c'
  assume "S2N_TLS12 \<le> actual_protocol_version c"
    and "s2n_client_cert_verify_recv E (Some c) = (Inr (), Some c')"
  from recv_modern [OF assms this]
  show "iana_value (client_cert_sig_scheme (handshake_params c'))
           = bytes_u16 (blob (io (handshake c)) ! read_cursor (io (handshake c)))
                       (blob (io (handshake c)) ! (read_cursor (io (handshake c)) + 1))"
    and "client_cert_sig_scheme (handshake_params c') \<in> set (accepted_sig_schemes c)"
    and "read_cursor (io (handshake c')) = read_cursor (io (handshake c)) + 4 +
            unat (bytes_u16 (blob (io (handshake c)) ! (read_cursor (io (handshake c)) + 2))
                            (blob (io (handshake c)) ! (read_cursor (io (handshake c)) + 3)))"
    by blast+
next
  fix r c'
  assume "S2N_TLS12 \<le> actual_protocol_version c" and "async_state (handshake c) = NotStarted"
    and "s2n_client_cert_verify_send E (Some c) = (r, Some c')"
  from send_modern [OF assms this(2) this(1) this(3)]
  show "client_cert_sig_scheme (handshake_params c') = client_cert_sig_scheme (handshake_params c)"
    and "if length (blob (io (handshake c))) + 2 \<le> max_size (io (handshake c))
         then \<exists>rest. blob (io (handshake c')) = blob (io (handshake c))
                         @ u16_bytes (iana_value (client_cert_sig_scheme (handshake_params c))) @ rest
         else r = Inl BufferFullError \<and> c' = c"
    and "r = Inr () \<Longrightarrow> \<exists>sig. blob (io (handshake c')) = blob (io (handshake c))
                         @ u16_bytes (iana_value (client_cert_sig_scheme (handshake_params c)))
                         @ u16_bytes (of_nat (length sig)) @ sig"
    and "r = Inl AsyncPending \<Longrightarrow> blob (io (handshake c')) = blob (io (handshake c))
                         @ u16_bytes (iana_value (client_cert_sig_scheme (handshake_params c)))"
    by blast+
qed

text \<open>
  The witness: on TLS 1.1 the server ends with the ECDSA default as its scheme and the
  cursor after length and signature (2 + 3 bytes), though its scheme field held RSA-SHA256
  before; the client appends \<open>00 03 09 04 05\<close>, length first.
\<close>

theorem negotiation_by_version_witness:
  "fst (s2n_client_cert_verify_recv toy_externals (Some toy_legacy_server)) = Inr () \<and>
   map_option (client_cert_sig_scheme \<circ> handshake_params)
       (snd (s2n_client_cert_verify_recv toy_externals (Some toy_legacy_server)))
     = Some s2n_ecdsa_sha1 \<and>
   map_option (read_cursor \<circ> io \<circ> handshake)
       (snd (s2n_client_cert_verify_recv toy_externals (Some toy_legacy_server)))
     = Some 5 \<and>
   fst (s2n_client_cert_verify_send toy_externals (Some toy_legacy_client)) = Inr () \<and>
   map_option (blob \<circ> io \<circ> handshake)
       (snd (s2n_client_cert_verify_send toy_externals (Some toy_legacy_client)))
     = Some [0, 3, 9, 4, 5]"
proof -
  obtain c' where run: "s2n_client_cert_verify_recv toy_externals (Some toy_legacy_server) = (Inr (), Some c')"
    by (simp add: toy_defs exec_defs)
  have h: "hashes (handshake toy_legacy_server) \<noteq> None" by (simp add: toy_defs set_io_def)
  have v: "actual_protocol_version toy_legacy_server < S2N_TLS12" by (simp add: toy_defs set_io_def)
  from negotiation_by_version [OF h, of toy_externals] v run
  have "(case default_scheme_for toy_externals (actual_protocol_version toy_legacy_server)
             (client_cert_pkey_type (handshake_params toy_legacy_server)) of
           None \<Rightarrow> Inr () = (Inl NegotiationError :: s2n_error + unit) \<and> c' = toy_legacy_server
         | Some d \<Rightarrow> client_cert_sig_scheme (handshake_params c') = d) \<and>
        read_cursor (io (handshake c')) = read_cursor (io (handshake toy_legacy_server)) + 2 +
            unat (bytes_u16 (blob (io (handshake toy_legacy_server)) ! read_cursor (io (handshake toy_legacy_server)))
                  (blob (io (handshake toy_legacy_server)) ! (read_cursor (io (handshake toy_legacy_server)) + 1)))"
    by blast
  then have "client_cert_sig_scheme (handshake_params c') = s2n_ecdsa_sha1"
    and "read_cursor (io (handshake c')) = 5"
    by (simp_all add: toy_defs set_io_def bytes_u16_def)
  moreover have "fst (s2n_client_cert_verify_send toy_externals (Some toy_legacy_client)) = Inr () \<and>
   map_option (blob \<circ> io \<circ> handshake)
       (snd (s2n_client_cert_verify_send toy_externals (Some toy_legacy_client)))
     = Some [0, 3, 9, 4, 5]"
    by (simp add: toy_defs exec_defs)
  ultimately show ?thesis by (simp add: run)
qed

subsection \<open>C8: what a failed send leaves in the buffer\<close>

text \<open>
  C8 says that a send step that returns an error leaves no partial write in the outbound
  buffer. The code has no rollback. With a private-key operation that fails, the TLS 1.2
  client has written its scheme id (line 80) when the signing (line 88) fails, and the two
  bytes stay in the buffer, which was empty before.
\<close>

theorem failed_send_leaves_scheme_id:
  "fst (s2n_client_cert_verify_send failing_sign_externals (Some toy_client)) = Inl AsyncOperationError \<and>
   blob (io (handshake toy_client)) = [] \<and>
   map_option (blob \<circ> io \<circ> handshake)
       (snd (s2n_client_cert_verify_send failing_sign_externals (Some toy_client)))
     = Some [4, 3]"
  by (simp add: toy_defs exec_defs)

text \<open>
  C8 as amended. Nothing is rolled back: a send step or a completion that returns an
  error returns the connection as the failing statement left it. For a send step on a
  connection with its hashes and a fresh async state:
  \<^item> when choosing the default scheme or writing the scheme id fails, the connection is
    unchanged;
  \<^item> when the running state of the scheme's hash algorithm is missing, or the synchronous
    signing fails, the buffer holds what it held before followed by the 2-byte scheme id
    (TLS 1.2 and later; nothing below);
  \<^item> when the signing succeeds, the result is that of the completion.

  For the completion: when the length does not fit, the connection is unchanged; when the
  signature does not fit, the 2-byte length stays; when the minimization fails, the whole
  length-prefixed signature stays. In every failing send or resumption the buffer holds
  what it held before followed by one of these prefixes of the message.
\<close>

theorem failed_send_keeps_written_prefix:
  "(hashes (handshake c) = Some h \<and> async_state (handshake c) = NotStarted \<and>
    (if actual_protocol_version c < S2N_TLS12
     then s2n_choose_default_sig_scheme E c
     else on_io (\<lambda>st. s2n_stuffer_write_uint16 st
                    (iana_value (client_cert_sig_scheme (handshake_params c)))) c) = (Inl e, c1) \<longrightarrow>
      s2n_client_cert_verify_send E (Some c) = (Inl e, Some c)) \<and>
   (hashes (handshake c) = Some h \<and> async_state (handshake c) = NotStarted \<and>
    (if actual_protocol_version c < S2N_TLS12
     then s2n_choose_default_sig_scheme E c
     else on_io (\<lambda>st. s2n_stuffer_write_uint16 st
                    (iana_value (client_cert_sig_scheme (handshake_params c)))) c) = (Inr (), c1) \<longrightarrow>
      blob (io (handshake c1)) = blob (io (handshake c))
         @ (if actual_protocol_version c < S2N_TLS12 then []
            else u16_bytes (iana_value (client_cert_sig_scheme (handshake_params c)))) \<and>
      (case running h (hash_alg (client_cert_sig_scheme (handshake_params c1))) of
         None \<Rightarrow> s2n_client_cert_verify_send E (Some c) = (Inl TranscriptStateError, Some c1)
       | Some hs \<Rightarrow>
           async_pkey_cb c \<or>
           (case pkey_sign E (our_private_key (handshake_params c))
                   (sig_alg (client_cert_sig_scheme (handshake_params c1))) (fst (hash_digest E hs)) of
              None \<Rightarrow> s2n_client_cert_verify_send E (Some c) =
                  (Inl AsyncOperationError,
                   Some (set_hash_workspace (c1\<lparr>calls := calls c @ [CallSign]\<rparr>) (snd (hash_digest E hs))))
            | Some sig \<Rightarrow> s2n_client_cert_verify_send E (Some c) =
                  map_prod id Some
                    (s2n_client_cert_verify_send_complete E
                       (set_hash_workspace (c1\<lparr>calls := calls c @ [CallSign]\<rparr>) (snd (hash_digest E hs)))
                       sig)))) \<and>
   s2n_client_cert_verify_send_complete E d sg =
     (if max_size (io (handshake d)) < length (blob (io (handshake d))) + 2
      then (Inl BufferFullError, d)
      else if max_size (io (handshake d)) < length (blob (io (handshake d))) + 2 + length sg
      then (Inl BufferFullError,
            set_io d ((io (handshake d))\<lparr>blob := blob (io (handshake d)) @ u16_bytes (of_nat (length sg))\<rparr>))
      else if minimize_fails E (actual_protocol_version d) (required_hash_algs (handshake d))
      then (Inl MinimizationError,
            (set_io d ((io (handshake d))
                \<lparr>blob := blob (io (handshake d)) @ u16_bytes (of_nat (length sg)) @ sg\<rparr>))
              \<lparr>calls := calls d @ [CallMinimize]\<rparr>)
      else (Inr (),
            (set_io d ((io (handshake d))
                \<lparr>blob := blob (io (handshake d)) @ u16_bytes (of_nat (length sg)) @ sg\<rparr>))
              \<lparr>handshake := (handshake (set_io d ((io (handshake d))
                    \<lparr>blob := blob (io (handshake d)) @ u16_bytes (of_nat (length sg)) @ sg\<rparr>)))
                  \<lparr>required_hash_algs := filter (needed_later E (actual_protocol_version d))
                                            (required_hash_algs (handshake d))\<rparr>,
                calls := calls d @ [CallMinimize]\<rparr>)) \<and>
   (s2n_client_cert_verify_send E (Some c) = (Inl e', Some c') \<longrightarrow>
      blob (io (handshake c')) = blob (io (handshake c)) \<or>
      (S2N_TLS12 \<le> actual_protocol_version c \<and>
       blob (io (handshake c')) = blob (io (handshake c))
          @ u16_bytes (iana_value (client_cert_sig_scheme (handshake_params c)))) \<or>
      (\<exists>sig :: byte list. blob (io (handshake c')) = blob (io (handshake c))
          @ (if actual_protocol_version c < S2N_TLS12 then []
             else u16_bytes (iana_value (client_cert_sig_scheme (handshake_params c))))
          @ u16_bytes (of_nat (length sig))) \<or>
      (\<exists>sig :: byte list. blob (io (handshake c')) = blob (io (handshake c))
          @ (if actual_protocol_version c < S2N_TLS12 then []
             else u16_bytes (iana_value (client_cert_sig_scheme (handshake_params c))))
          @ u16_bytes (of_nat (length sig)) @ sig)) \<and>
   (async_resume E c (s2n_client_cert_verify_send_complete E) = (Inl e', c') \<longrightarrow>
      blob (io (handshake c')) = blob (io (handshake c)) \<or>
      (\<exists>sig :: byte list. blob (io (handshake c')) = blob (io (handshake c)) @ u16_bytes (of_nat (length sig))) \<or>
      (\<exists>sig :: byte list. blob (io (handshake c')) = blob (io (handshake c)) @ u16_bytes (of_nat (length sig)) @ sig))"
proof (intro conjI impI; (elim conjE)?)
  assume h: "hashes (handshake c) = Some h"
    and fresh: "async_state (handshake c) = NotStarted"
    and neg: "(if actual_protocol_version c < S2N_TLS12
     then s2n_choose_default_sig_scheme E c
     else on_io (\<lambda>st. s2n_stuffer_write_uint16 st
                    (iana_value (client_cert_sig_scheme (handshake_params c)))) c) = (Inl e, c1)"
  from write_id_keeps(5) [OF neg] have "c1 = c" by simp
  with neg show "s2n_client_cert_verify_send E (Some c) = (Inl e, Some c)"
    by (simp add: send_exec [OF h fresh])
next
  assume h: "hashes (handshake c) = Some h"
    and fresh: "async_state (handshake c) = NotStarted"
    and neg: "(if actual_protocol_version c < S2N_TLS12
     then s2n_choose_default_sig_scheme E c
     else on_io (\<lambda>st. s2n_stuffer_write_uint16 st
                    (iana_value (client_cert_sig_scheme (handshake_params c)))) c) = (Inr (), c1)"
  from write_id_keeps(6) [OF neg]
  show "blob (io (handshake c1)) = blob (io (handshake c))
         @ (if actual_protocol_version c < S2N_TLS12 then []
            else u16_bytes (iana_value (client_cert_sig_scheme (handshake_params c))))"
    by simp
  show "case running h (hash_alg (client_cert_sig_scheme (handshake_params c1))) of
         None \<Rightarrow> s2n_client_cert_verify_send E (Some c) = (Inl TranscriptStateError, Some c1)
       | Some hs \<Rightarrow>
           async_pkey_cb c \<or>
           (case pkey_sign E (our_private_key (handshake_params c))
                   (sig_alg (client_cert_sig_scheme (handshake_params c1))) (fst (hash_digest E hs)) of
              None \<Rightarrow> s2n_client_cert_verify_send E (Some c) =
                  (Inl AsyncOperationError,
                   Some (set_hash_workspace (c1\<lparr>calls := calls c @ [CallSign]\<rparr>) (snd (hash_digest E hs))))
            | Some sig \<Rightarrow> s2n_client_cert_verify_send E (Some c) =
                  map_prod id Some
                    (s2n_client_cert_verify_send_complete E
                       (set_hash_workspace (c1\<lparr>calls := calls c @ [CallSign]\<rparr>) (snd (hash_digest E hs)))
                       sig))"
  proof (cases "running h (hash_alg (client_cert_sig_scheme (handshake_params c1)))")
    case None
    with neg show ?thesis by (simp add: send_exec [OF h fresh])
  next
    case (Some hs)
    show ?thesis
      by (simp add: Some send_exact [OF h fresh neg Some] split: option.splits)
  qed
next
  show "s2n_client_cert_verify_send_complete E d sg =
     (if max_size (io (handshake d)) < length (blob (io (handshake d))) + 2
      then (Inl BufferFullError, d)
      else if max_size (io (handshake d)) < length (blob (io (handshake d))) + 2 + length sg
      then (Inl BufferFullError,
            set_io d ((io (handshake d))\<lparr>blob := blob (io (handshake d)) @ u16_bytes (of_nat (length sg))\<rparr>))
      else if minimize_fails E (actual_protocol_version d) (required_hash_algs (handshake d))
      then (Inl MinimizationError,
            (set_io d ((io (handshake d))
                \<lparr>blob := blob (io (handshake d)) @ u16_bytes (of_nat (length sg)) @ sg\<rparr>))
              \<lparr>calls := calls d @ [CallMinimize]\<rparr>)
      else (Inr (),
            (set_io d ((io (handshake d))
                \<lparr>blob := blob (io (handshake d)) @ u16_bytes (of_nat (length sg)) @ sg\<rparr>))
              \<lparr>handshake := (handshake (set_io d ((io (handshake d))
                    \<lparr>blob := blob (io (handshake d)) @ u16_bytes (of_nat (length sg)) @ sg\<rparr>)))
                  \<lparr>required_hash_algs := filter (needed_later E (actual_protocol_version d))
                                            (required_hash_algs (handshake d))\<rparr>,
                calls := calls d @ [CallMinimize]\<rparr>))"
    unfolding send_complete_exec
    by (simp add: s2n_conn_update_required_handshake_hashes_def set_io_def not_le)
next
  assume run: "s2n_client_cert_verify_send E (Some c) = (Inl e', Some c')"
  let ?idb = "if actual_protocol_version c < S2N_TLS12 then []
              else u16_bytes (iana_value (client_cert_sig_scheme (handshake_params c)))"
  let ?goal = "blob (io (handshake c')) = blob (io (handshake c)) \<or>
      (S2N_TLS12 \<le> actual_protocol_version c \<and>
       blob (io (handshake c')) = blob (io (handshake c))
          @ u16_bytes (iana_value (client_cert_sig_scheme (handshake_params c)))) \<or>
      (\<exists>sig :: byte list. blob (io (handshake c')) = blob (io (handshake c)) @ ?idb @ u16_bytes (of_nat (length sig))) \<or>
      (\<exists>sig :: byte list. blob (io (handshake c')) = blob (io (handshake c)) @ ?idb @ u16_bytes (of_nat (length sig)) @ sig)"
  show ?goal
  proof (cases "hashes (handshake c)")
    case None
    with run show ?thesis by (auto simp: s2n_client_cert_verify_send_def)
  next
    case (Some h)
    show ?thesis
    proof (cases "async_state (handshake c) = NotStarted")
      case False
      with run Some have "c' = c"
        by (auto simp: s2n_client_cert_verify_send_def S2N_ASYNC_PKEY_GUARD_def
            split: s2n_async_state.splits)
      then show ?thesis by simp
    next
      case True
      note ex = run [unfolded send_exec [OF Some True], simplified]
      obtain r1 c1 where neg: "(if actual_protocol_version c < S2N_TLS12
            then s2n_choose_default_sig_scheme E c
            else on_io (\<lambda>st. s2n_stuffer_write_uint16 st
                           (iana_value (client_cert_sig_scheme (handshake_params c)))) c) = (r1, c1)"
        by (cases "(if actual_protocol_version c < S2N_TLS12
            then s2n_choose_default_sig_scheme E c
            else on_io (\<lambda>st. s2n_stuffer_write_uint16 st
                           (iana_value (client_cert_sig_scheme (handshake_params c)))) c)")
      have c1: "(r1 \<noteq> Inr () \<longrightarrow> c1 = c) \<and>
                (r1 = Inr () \<longrightarrow> blob (io (handshake c1)) = blob (io (handshake c)) @ ?idb)"
        using write_id_keeps(5,6) [OF neg] by simp
      show ?thesis
      proof (cases r1)
        case (Inl e1)
        with ex neg c1 show ?thesis by auto
      next
        case (Inr u)
        show ?thesis
        proof (cases "running h (hash_alg (client_cert_sig_scheme (handshake_params c1)))")
          case None
          with ex neg Inr c1 show ?thesis by (auto split: if_splits)
        next
          case (Some hs)
          with ex neg Inr
          have sg: "S2N_ASYNC_PKEY_SIGN E (set_hash_workspace c1 hs)
                      (sig_alg (client_cert_sig_scheme (handshake_params c1)))
                      HashWorkspace (s2n_client_cert_verify_send_complete E) = (Inl e', c')"
            by simp
          from sign_effect(3) [OF sg] c1 Inr show ?thesis
            by (auto simp: set_hash_workspace_def split: if_splits)
        qed
      qed
    qed
  qed
next
  assume "async_resume E c (s2n_client_cert_verify_send_complete E) = (Inl e', c')"
  then show "blob (io (handshake c')) = blob (io (handshake c)) \<or>
      (\<exists>sig :: byte list. blob (io (handshake c')) = blob (io (handshake c)) @ u16_bytes (of_nat (length sig))) \<or>
      (\<exists>sig :: byte list. blob (io (handshake c')) = blob (io (handshake c)) @ u16_bytes (of_nat (length sig)) @ sig)"
    unfolding async_resume_def send_complete_exec
    by (auto simp: conn_defs s2n_conn_update_required_handshake_hashes_def
        split: option.splits if_splits prod.splits sum.splits s2n_async_state.splits)
qed

text \<open>
  The witness: the failing signing above, whose buffer ends with the scheme id alone, and
  the same client with a minimization that fails, whose buffer ends with the whole
  message although the call returns an error.
\<close>

theorem failed_send_keeps_written_prefix_witness:
  "fst (s2n_client_cert_verify_send failing_sign_externals (Some toy_client)) = Inl AsyncOperationError \<and>
   map_option (blob \<circ> io \<circ> handshake)
       (snd (s2n_client_cert_verify_send failing_sign_externals (Some toy_client)))
     = Some [4, 3] \<and>
   fst (s2n_client_cert_verify_send failing_minimize_externals (Some toy_client)) = Inl MinimizationError \<and>
   map_option (blob \<circ> io \<circ> handshake)
       (snd (s2n_client_cert_verify_send failing_minimize_externals (Some toy_client)))
     = Some [4, 3, 0, 4, 9, 1, 2, 3]"
proof -
  let ?c1 = "set_io toy_client \<lparr>blob = [4, 3], read_cursor = 0, max_size = 64\<rparr>"
  let ?d = "set_hash_workspace (?c1\<lparr>calls := calls toy_client @ [CallSign]\<rparr>) [1, 2, 3, 255]"
  have h: "hashes (handshake toy_client) = Some toy_hashes"
    and fresh: "async_state (handshake toy_client) = NotStarted"
    and neg: "\<And>E. (if actual_protocol_version toy_client < S2N_TLS12
             then s2n_choose_default_sig_scheme E toy_client
             else on_io (\<lambda>st. s2n_stuffer_write_uint16 st
                    (iana_value (client_cert_sig_scheme (handshake_params toy_client)))) toy_client)
            = (Inr (), ?c1)"
    and hs: "running toy_hashes (hash_alg (client_cert_sig_scheme (handshake_params ?c1))) = Some [1, 2, 3]"
    and sync: "\<not> async_pkey_cb toy_client"
    by (simp_all add: toy_defs conn_defs s2n_stuffer_write_uint16_def s2n_stuffer_write_def u16_bytes_def)
  have dg: "hash_digest failing_sign_externals [1, 2, 3] = ([1, 2, 3], [1, 2, 3, 255])"
    "hash_digest failing_minimize_externals [1, 2, 3] = ([1, 2, 3], [1, 2, 3, 255])"
    by (simp_all add: toy_defs)
  have nosig: "pkey_sign failing_sign_externals (our_private_key (handshake_params toy_client))
                 (sig_alg (client_cert_sig_scheme (handshake_params ?c1))) [1, 2, 3] = None"
    and sig: "pkey_sign failing_minimize_externals (our_private_key (handshake_params toy_client))
                 (sig_alg (client_cert_sig_scheme (handshake_params ?c1))) [1, 2, 3] = Some [9, 1, 2, 3]"
    by (simp_all add: toy_defs conn_defs)
  from failed_send_keeps_written_prefix
         [where E = failing_sign_externals and c = toy_client and h = toy_hashes and ?c1.0 = ?c1]
       h fresh neg hs sync nosig dg
  have a: "s2n_client_cert_verify_send failing_sign_externals (Some toy_client) =
             (Inl AsyncOperationError,
              Some (set_hash_workspace (?c1\<lparr>calls := calls toy_client @ [CallSign]\<rparr>) [1, 2, 3, 255]))"
    by simp
  from failed_send_keeps_written_prefix
         [where E = failing_minimize_externals and c = toy_client and h = toy_hashes and ?c1.0 = ?c1]
       h fresh neg hs sync sig dg
  have b: "s2n_client_cert_verify_send failing_minimize_externals (Some toy_client) =
             map_prod id Some (s2n_client_cert_verify_send_complete failing_minimize_externals ?d [9, 1, 2, 3])"
    by simp
  from failed_send_keeps_written_prefix
         [where E = failing_minimize_externals and d = ?d and sg = "[9, 1, 2, 3]"]
  have c: "s2n_client_cert_verify_send_complete failing_minimize_externals ?d [9, 1, 2, 3] =
             (Inl MinimizationError,
              (set_io ?d ((io (handshake ?d))
                 \<lparr>blob := blob (io (handshake ?d)) @ u16_bytes (of_nat (length [9 :: byte, 1, 2, 3])) @ [9, 1, 2, 3]\<rparr>))
                \<lparr>calls := calls ?d @ [CallMinimize]\<rparr>)"
    by (simp add: toy_defs conn_defs)
  show ?thesis
    unfolding a b c
    by (simp add: toy_defs conn_defs u16_bytes_def)
qed

subsection \<open>C9: where the scheme and the snapshot live\<close>

text \<open>
  C9 says that the scheme and the snapshot of a call do not outlive it, and that no
  connection state retains them after the call. In the code \<open>chosen_sig_scheme\<close> points
  into the connection (lines 38 and 76) and the snapshot is copied into the connection's
  workspace (lines 57 and 86). After a successful receive on TLS 1.1 the server's scheme
  field, RSA-SHA256 before the call, holds the chosen ECDSA default, and its workspace,
  empty before the call, holds the snapshot of the SHA-1 transcript state as the
  digest-read left it.
\<close>

theorem scheme_and_snapshot_outlive_call:
  "fst (s2n_client_cert_verify_recv toy_externals (Some toy_legacy_server)) = Inr () \<and>
   client_cert_sig_scheme (handshake_params toy_legacy_server) = s2n_rsa_pkcs1_sha256 \<and>
   map_option (client_cert_sig_scheme \<circ> handshake_params)
       (snd (s2n_client_cert_verify_recv toy_externals (Some toy_legacy_server)))
     = Some s2n_ecdsa_sha1 \<and>
   get_hash_workspace toy_legacy_server = [] \<and>
   map_option get_hash_workspace (snd (s2n_client_cert_verify_recv toy_externals (Some toy_legacy_server)))
     = Some [4, 5, 255]"
  by (simp add: toy_defs exec_defs)

text \<open>
  C9 as amended. The scheme and the snapshot of a call are kept in the connection and are
  there when the call has returned, whatever it returns. Once the negotiation step of a
  receive call, or of a send call from a fresh async state, has succeeded, the scheme
  field of the returned connection holds the chosen scheme: the default below TLS 1.2;
  from TLS 1.2 on an accepted scheme on the receive side and the connection's own on the
  send side. Once the call has got as far as the snapshot (on the receive side the length
  is read and the signature bytes are there; on both sides the running state of the
  scheme's hash algorithm exists), the workspace of the returned connection holds the
  snapshot as the digest-read left it, or, when the signing is asynchronous, as it was
  copied, and then the pending request holds it too. Only the local \<open>hash_state\<close> ends
  with the call.
\<close>

theorem scheme_and_snapshot_kept_in_connection:
  "(hashes (handshake c) = Some h \<and>
    (if actual_protocol_version c < S2N_TLS12 then s2n_choose_default_sig_scheme E c
     else s2n_get_and_validate_negotiated_signature_scheme c) = (Inr (), c1) \<and>
    s2n_client_cert_verify_recv E (Some c) = (r, Some c') \<longrightarrow>
      client_cert_sig_scheme (handshake_params c') = client_cert_sig_scheme (handshake_params c1) \<and>
      (if actual_protocol_version c < S2N_TLS12
       then default_scheme_for E (actual_protocol_version c) (client_cert_pkey_type (handshake_params c))
              = Some (client_cert_sig_scheme (handshake_params c'))
       else client_cert_sig_scheme (handshake_params c') \<in> set (accepted_sig_schemes c))) \<and>
   (hashes (handshake c) = Some h \<and>
    (if actual_protocol_version c < S2N_TLS12 then s2n_choose_default_sig_scheme E c
     else s2n_get_and_validate_negotiated_signature_scheme c) = (Inr (), c1) \<and>
    s2n_stuffer_read_uint16 (io (handshake c1)) = (Inr n, st) \<and>
    unat n \<le> s2n_stuffer_data_available st \<and>
    running h (hash_alg (client_cert_sig_scheme (handshake_params c1))) = Some hs \<and>
    s2n_client_cert_verify_recv E (Some c) = (r, Some c') \<longrightarrow>
      get_hash_workspace c' = snd (hash_digest E hs)) \<and>
   (hashes (handshake c) = Some h \<and> async_state (handshake c) = NotStarted \<and>
    (if actual_protocol_version c < S2N_TLS12
     then s2n_choose_default_sig_scheme E c
     else on_io (\<lambda>st. s2n_stuffer_write_uint16 st
                    (iana_value (client_cert_sig_scheme (handshake_params c)))) c) = (Inr (), c1) \<and>
    s2n_client_cert_verify_send E (Some c) = (r, Some c') \<longrightarrow>
      client_cert_sig_scheme (handshake_params c') = client_cert_sig_scheme (handshake_params c1) \<and>
      (if actual_protocol_version c < S2N_TLS12
       then default_scheme_for E (actual_protocol_version c) (client_cert_pkey_type (handshake_params c))
              = Some (client_cert_sig_scheme (handshake_params c'))
       else client_cert_sig_scheme (handshake_params c') = client_cert_sig_scheme (handshake_params c))) \<and>
   (hashes (handshake c) = Some h \<and> async_state (handshake c) = NotStarted \<and>
    (if actual_protocol_version c < S2N_TLS12
     then s2n_choose_default_sig_scheme E c
     else on_io (\<lambda>st. s2n_stuffer_write_uint16 st
                    (iana_value (client_cert_sig_scheme (handshake_params c)))) c) = (Inr (), c1) \<and>
    running h (hash_alg (client_cert_sig_scheme (handshake_params c1))) = Some hs \<and>
    s2n_client_cert_verify_send E (Some c) = (r, Some c') \<longrightarrow>
      (if async_pkey_cb c
       then get_hash_workspace c' = hs \<and>
            async_state (handshake c')
              = Pending (sig_alg (client_cert_sig_scheme (handshake_params c1))) hs
       else get_hash_workspace c' = snd (hash_digest E hs)))"
proof (intro conjI impI; (elim conjE)?)
  assume h: "hashes (handshake c) = Some h"
    and neg: "(if actual_protocol_version c < S2N_TLS12 then s2n_choose_default_sig_scheme E c
     else s2n_get_and_validate_negotiated_signature_scheme c) = (Inr (), c1)"
    and run: "s2n_client_cert_verify_recv E (Some c) = (r, Some c')"
  from run h neg
  show same: "client_cert_sig_scheme (handshake_params c') = client_cert_sig_scheme (handshake_params c1)"
    unfolding s2n_client_cert_verify_recv_def
    by (auto simp: on_io_def set_io_def s2n_stuffer_read_uint16_def s2n_stuffer_raw_read_def
         s2n_handshake_get_hash_state_def s2n_hash_copy_def set_hash_workspace_def get_hash_workspace_def
         s2n_pkey_verify_def s2n_conn_update_required_handshake_hashes_def POSIX_GUARD_def Let_def
         split: option.splits sum.splits prod.splits if_splits)
  from neg have "if actual_protocol_version c < S2N_TLS12
       then default_scheme_for E (actual_protocol_version c) (client_cert_pkey_type (handshake_params c))
              = Some (client_cert_sig_scheme (handshake_params c1))
       else client_cert_sig_scheme (handshake_params c1) \<in> set (accepted_sig_schemes c)"
    by (auto simp: s2n_choose_default_sig_scheme_def s2n_get_and_validate_negotiated_signature_scheme_def
          POSIX_GUARD_def conn_defs s2n_stuffer_read_uint16_def find_Some_iff
        split: if_splits option.splits sum.splits prod.splits)
  with same show "if actual_protocol_version c < S2N_TLS12
       then default_scheme_for E (actual_protocol_version c) (client_cert_pkey_type (handshake_params c))
              = Some (client_cert_sig_scheme (handshake_params c'))
       else client_cert_sig_scheme (handshake_params c') \<in> set (accepted_sig_schemes c)"
    by simp
next
  assume h: "hashes (handshake c) = Some h"
    and neg: "(if actual_protocol_version c < S2N_TLS12 then s2n_choose_default_sig_scheme E c
     else s2n_get_and_validate_negotiated_signature_scheme c) = (Inr (), c1)"
    and rd: "s2n_stuffer_read_uint16 (io (handshake c1)) = (Inr n, st)"
    and av: "unat n \<le> s2n_stuffer_data_available st"
    and hs: "running h (hash_alg (client_cert_sig_scheme (handshake_params c1))) = Some hs"
    and run: "s2n_client_cert_verify_recv E (Some c) = (r, Some c')"
  note keep = negotiation_keeps [OF neg]
  from run [unfolded recv_exact [OF h neg rd av hs]] keep(1) h
  show "get_hash_workspace c' = snd (hash_digest E hs)"
    by (auto simp: s2n_conn_update_required_handshake_hashes_def set_hash_workspace_def set_io_def
          get_hash_workspace_def
        split: if_splits)
next
  assume h: "hashes (handshake c) = Some h"
    and fresh: "async_state (handshake c) = NotStarted"
    and neg: "(if actual_protocol_version c < S2N_TLS12
     then s2n_choose_default_sig_scheme E c
     else on_io (\<lambda>st. s2n_stuffer_write_uint16 st
                    (iana_value (client_cert_sig_scheme (handshake_params c)))) c) = (Inr (), c1)"
    and run: "s2n_client_cert_verify_send E (Some c) = (r, Some c')"
  note keep = write_id_keeps [OF neg]
  from run [unfolded send_exec [OF h fresh] neg]
  show same: "client_cert_sig_scheme (handshake_params c') = client_cert_sig_scheme (handshake_params c1)"
    by (auto simp: S2N_ASYNC_PKEY_SIGN_def send_complete_exec Let_def
          s2n_conn_update_required_handshake_hashes_def conn_defs
        split: option.splits if_splits prod.splits)
  from keep(7) same
  show "if actual_protocol_version c < S2N_TLS12
       then default_scheme_for E (actual_protocol_version c) (client_cert_pkey_type (handshake_params c))
              = Some (client_cert_sig_scheme (handshake_params c'))
       else client_cert_sig_scheme (handshake_params c') = client_cert_sig_scheme (handshake_params c)"
    by simp
next
  assume h: "hashes (handshake c) = Some h"
    and fresh: "async_state (handshake c) = NotStarted"
    and neg: "(if actual_protocol_version c < S2N_TLS12
     then s2n_choose_default_sig_scheme E c
     else on_io (\<lambda>st. s2n_stuffer_write_uint16 st
                    (iana_value (client_cert_sig_scheme (handshake_params c)))) c) = (Inr (), c1)"
    and hs: "running h (hash_alg (client_cert_sig_scheme (handshake_params c1))) = Some hs"
    and run: "s2n_client_cert_verify_send E (Some c) = (r, Some c')"
  note keep = write_id_keeps [OF neg]
  from run [unfolded send_exact [OF h fresh neg hs]] keep(1) h
  show "if async_pkey_cb c
       then get_hash_workspace c' = hs \<and>
            async_state (handshake c')
              = Pending (sig_alg (client_cert_sig_scheme (handshake_params c1))) hs
       else get_hash_workspace c' = snd (hash_digest E hs)"
    by (auto simp: send_complete_exec s2n_conn_update_required_handshake_hashes_def
          set_hash_workspace_def set_io_def set_async_state_def get_hash_workspace_def
        split: if_splits option.splits)
qed

text \<open>
  The witness: the TLS 1.1 receive above, and the TLS 1.2 receive of a message whose last
  signature byte is flipped. The second call fails with \<open>VerificationFailure\<close>, and the
  connection it returns holds the scheme taken from the wire and the snapshot as the
  digest-read left it.
\<close>

theorem scheme_and_snapshot_kept_in_connection_witness:
  "fst (s2n_client_cert_verify_recv toy_externals (Some toy_legacy_server)) = Inr () \<and>
   map_option (Some \<circ> client_cert_sig_scheme \<circ> handshake_params)
       (snd (s2n_client_cert_verify_recv toy_externals (Some toy_legacy_server)))
     = Some (default_scheme_for toy_externals (actual_protocol_version toy_legacy_server)
               (client_cert_pkey_type (handshake_params toy_legacy_server))) \<and>
   fst (s2n_client_cert_verify_recv toy_externals (Some (toy_server_with [4, 3, 0, 4, 9, 1, 2, 2])))
     = Inl VerificationFailure \<and>
   map_option (client_cert_sig_scheme \<circ> handshake_params)
       (snd (s2n_client_cert_verify_recv toy_externals (Some (toy_server_with [4, 3, 0, 4, 9, 1, 2, 2]))))
     = Some s2n_ecdsa_sha256 \<and>
   map_option get_hash_workspace
       (snd (s2n_client_cert_verify_recv toy_externals (Some (toy_server_with [4, 3, 0, 4, 9, 1, 2, 2]))))
     = Some [1, 2, 3, 255]"
proof -
  let ?l = toy_legacy_server
  let ?b = "toy_server_with [4, 3, 0, 4, 9, 1, 2, 2]"
  let ?bneg = "set_client_cert_sig_scheme
                 (set_io toy_server \<lparr>blob = [4, 3, 0, 4, 9, 1, 2, 2], read_cursor = 2, max_size = 64\<rparr>)
                 s2n_ecdsa_sha256"
  let ?bst = "\<lparr>blob = [4, 3, 0, 4, 9, 1, 2, 2], read_cursor = 4, max_size = 64\<rparr> :: s2n_stuffer"
  obtain c' where run: "s2n_client_cert_verify_recv toy_externals (Some ?l) = (Inr (), Some c')"
    by (simp add: toy_defs exec_defs)
  obtain d' where bad: "s2n_client_cert_verify_recv toy_externals (Some ?b)
                          = (Inl VerificationFailure, Some d')"
    by (simp add: toy_defs exec_defs)
  have lh: "hashes (handshake ?l) = Some toy_hashes"
    and ln: "(if actual_protocol_version ?l < S2N_TLS12 then s2n_choose_default_sig_scheme toy_externals ?l
              else s2n_get_and_validate_negotiated_signature_scheme ?l)
               = (Inr (), set_client_cert_sig_scheme ?l s2n_ecdsa_sha1)"
    and lv: "actual_protocol_version ?l < S2N_TLS12"
    by (simp_all add: toy_defs conn_defs s2n_choose_default_sig_scheme_def)
  have bh: "hashes (handshake ?b) = Some toy_hashes"
    and bn: "(if actual_protocol_version ?b < S2N_TLS12 then s2n_choose_default_sig_scheme toy_externals ?b
              else s2n_get_and_validate_negotiated_signature_scheme ?b) = (Inr (), ?bneg)"
    and br: "s2n_stuffer_read_uint16 (io (handshake ?bneg)) = (Inr 4, ?bst)"
    and ba: "unat (4 :: 16 word) \<le> s2n_stuffer_data_available ?bst"
    and bs: "running toy_hashes (hash_alg (client_cert_sig_scheme (handshake_params ?bneg))) = Some [1, 2, 3]"
    by (simp_all add: toy_defs conn_defs s2n_get_and_validate_negotiated_signature_scheme_def
          s2n_stuffer_read_uint16_def bytes_u16_def s2n_stuffer_data_available_def)
  note inst = scheme_and_snapshot_kept_in_connection [where E = toy_externals and h = toy_hashes]
  from inst [of ?l _ "Inr ()" c'] lh ln run
  have "if actual_protocol_version ?l < S2N_TLS12
       then default_scheme_for toy_externals (actual_protocol_version ?l)
              (client_cert_pkey_type (handshake_params ?l))
              = Some (client_cert_sig_scheme (handshake_params c'))
       else client_cert_sig_scheme (handshake_params c') \<in> set (accepted_sig_schemes ?l)"
    by blast
  with lv have a: "default_scheme_for toy_externals (actual_protocol_version ?l)
              (client_cert_pkey_type (handshake_params ?l))
              = Some (client_cert_sig_scheme (handshake_params c'))" by simp
  from inst [of ?b ?bneg "Inl VerificationFailure" d'] bh bn bad
  have b: "client_cert_sig_scheme (handshake_params d') = client_cert_sig_scheme (handshake_params ?bneg)"
    by blast
  from inst [of ?b ?bneg "Inl VerificationFailure" d' 4 ?bst "[1, 2, 3]"] bh bn br ba bs bad
  have w: "get_hash_workspace d' = snd (hash_digest toy_externals [1, 2, 3])"
    by blast
  from a b w show ?thesis
    by (simp add: run bad) (simp add: toy_defs set_client_cert_sig_scheme_def)
qed

end
